theory Spec2Isabelle
  imports Main
begin

section \<open>Service centre: request lifecycle and authorization engine\<close>

text \<open>
  A shallow embedding of \<^verbatim>\<open>app/services.py\<close>, \<^verbatim>\<open>app/rbac.py\<close> and
  \<^verbatim>\<open>app/usecases.py\<close> over the columns of \<^verbatim>\<open>app/models.py\<close>.

  \<^item> A Python \<^verbatim>\<open>str\<close> is the list of its Unicode code points, so that equality,
    \<^verbatim>\<open>len\<close>, slicing and \<^verbatim>\<open>strip\<close> count what Python counts (the role names
    are Cyrillic).
  \<^item> A \<^verbatim>\<open>date\<close> is its proleptic ordinal and a \<^verbatim>\<open>datetime\<close> a point on the
    time line; both are always truthy in Python. \<^verbatim>\<open>date.today()\<close> and
    \<^verbatim>\<open>datetime.now()\<close> are parameters of the functions that read the clock.
  \<^item> Primary keys and foreign keys are Python integers; \<^verbatim>\<open>0\<close> is falsy.
\<close>

type_synonym pystr = "nat list"
type_synonym date = int
type_synonym datetime = int

subsection \<open>String constants of the source\<close>

definition ROLE_MANAGER :: pystr where
  "ROLE_MANAGER = [1052, 1077, 1085, 1077, 1076, 1078, 1077, 1088]"

definition ROLE_MASTER :: pystr where
  "ROLE_MASTER = [1052, 1072, 1089, 1090, 1077, 1088]"

definition ROLE_SPECIALIST :: pystr where
  "ROLE_SPECIALIST = [1057, 1087, 1077, 1094, 1080, 1072, 1083, 1080, 1089, 1090]"

definition ROLE_OPERATOR :: pystr where
  "ROLE_OPERATOR = [1054, 1087, 1077, 1088, 1072, 1090, 1086, 1088]"

definition ROLE_CLIENT :: pystr where
  "ROLE_CLIENT = [1047, 1072, 1082, 1072, 1079, 1095, 1080, 1082]"

definition ROLE_QUALITY_MANAGER :: pystr where
  "ROLE_QUALITY_MANAGER =
     [1052, 1077, 1085, 1077, 1076, 1078, 1077, 1088, 32, 1087, 1086, 32,
      1082, 1072, 1095, 1077, 1089, 1090, 1074, 1091]"

text \<open>The status name looked up by \<^verbatim>\<open>get_new_request_status\<close> and the default
  issue type name of \<^verbatim>\<open>normalize_issue_type_name\<close>.\<close>

definition NEW_REQUEST_NAME :: pystr where
  "NEW_REQUEST_NAME = [1053, 1086, 1074, 1072, 1103, 32, 1079, 1072, 1103, 1074, 1082, 1072]"

definition NOT_SPECIFIED :: pystr where
  "NOT_SPECIFIED = [1053, 1077, 32, 1091, 1082, 1072, 1079, 1072, 1085, 1086]"

text \<open>The two values of \<^verbatim>\<open>HelpRequest.status\<close>: \<^verbatim>\<open>"open"\<close> and \<^verbatim>\<open>"closed"\<close>.\<close>

definition STATUS_OPEN :: pystr where
  "STATUS_OPEN = [111, 112, 101, 110]"

definition STATUS_CLOSED :: pystr where
  "STATUS_CLOSED = [99, 108, 111, 115, 101, 100]"

subsection \<open>Python string operations\<close>

text \<open>\<^verbatim>\<open>str.isspace\<close> on one code point: the code points Python strips.\<close>

definition isspace :: "nat \<Rightarrow> bool" where
  "isspace c \<longleftrightarrow>
     (9 \<le> c \<and> c \<le> 13) \<or> (28 \<le> c \<and> c \<le> 32) \<or> c = 133 \<or> c = 160 \<or> c = 5760 \<or>
     (8192 \<le> c \<and> c \<le> 8202) \<or> c = 8232 \<or> c = 8233 \<or> c = 8239 \<or> c = 8287 \<or> c = 12288"

definition lstrip :: "pystr \<Rightarrow> pystr" where
  "lstrip s = dropWhile isspace s"

definition rstrip :: "pystr \<Rightarrow> pystr" where
  "rstrip s = rev (dropWhile isspace (rev s))"

definition strip :: "pystr \<Rightarrow> pystr" where
  "strip s = rstrip (lstrip s)"

text \<open>\<^verbatim>\<open>x or ""\<close> on an optional string, and \<^verbatim>\<open>s or None\<close> on a string.\<close>

definition or_empty :: "pystr option \<Rightarrow> pystr" where
  "or_empty x = (case x of None \<Rightarrow> [] | Some s \<Rightarrow> s)"

definition or_None :: "pystr \<Rightarrow> pystr option" where
  "or_None s = (if s = [] then None else Some s)"

subsection \<open>Entities (models.py)\<close>

text \<open>
  One record per mapped class, one field per column the engine reads or writes (the
  server-side time stamps \<^verbatim>\<open>created_at\<close> and \<^verbatim>\<open>updated_at\<close> are left to the
  database). A relationship attribute the engine follows is a field holding the
  referenced object: \<^verbatim>\<open>User.role\<close> (optional, as \<^verbatim>\<open>rbac.role_name\<close> tests it) and
  \<^verbatim>\<open>RepairRequest.status\<close>.
\<close>

record UserRole =
  ur_id :: int
  ur_name :: pystr

record RequestStatus =
  rs_id :: int
  rs_name :: pystr
  rs_is_final :: bool

record EquipmentModel =
  em_id :: int
  em_equipment_type_id :: int
  em_name :: pystr

record IssueType =
  it_id :: int
  it_name :: pystr

record User =
  u_id :: int
  u_fio :: pystr
  u_phone :: pystr
  u_login :: pystr
  u_password_hash :: pystr
  u_role_id :: int
  u_role :: "UserRole option"

text \<open>\<^verbatim>\<open>rr_id\<close> is \<open>None\<close> on an object that was constructed and not yet stored.\<close>

record RepairRequest =
  rr_id :: "int option"
  rr_start_date :: date
  rr_equipment_model_id :: int
  rr_issue_type_id :: int
  rr_problem_description :: pystr
  rr_status_id :: int
  rr_status :: RequestStatus
  rr_completion_date :: "date option"
  rr_due_date :: "date option"
  rr_repair_parts :: "pystr option"
  rr_master_id :: "int option"
  rr_client_id :: "int option"

record RequestComment =
  rc_id :: int
  rc_request_id :: int
  rc_master_id :: int
  rc_message :: pystr

record HelpRequest =
  hr_id :: int
  hr_request_id :: int
  hr_created_by_master_id :: int
  hr_quality_manager_id :: "int option"
  hr_assigned_master_id :: "int option"
  hr_status :: pystr
  hr_message :: pystr
  hr_resolution_note :: "pystr option"
  hr_proposed_due_date :: "date option"
  hr_closed_at :: "datetime option"

subsection \<open>services.py\<close>

definition is_master_role :: "pystr \<Rightarrow> bool" where
  "is_master_role role \<longleftrightarrow> role \<in> set [ROLE_MASTER, ROLE_SPECIALIST]"

definition normalize_issue_type_name :: "pystr \<Rightarrow> pystr" where
  "normalize_issue_type_name problem_description =
     (let text = strip problem_description in
      if text = [] then NOT_SPECIFIED
      else if length text \<le> 255 then text
      else rstrip (take 252 text) @ [46, 46, 46])"

subsection \<open>rbac.py\<close>

definition role_name :: "User option \<Rightarrow> pystr" where
  "role_name user =
     (case user of
        None \<Rightarrow> []
      | Some u \<Rightarrow> (case u_role u of None \<Rightarrow> [] | Some r \<Rightarrow> ur_name r))"

definition user_can_create_request :: "User \<Rightarrow> bool" where
  "user_can_create_request user \<longleftrightarrow>
     role_name (Some user) \<in>
       set [ROLE_MANAGER, ROLE_OPERATOR, ROLE_QUALITY_MANAGER, ROLE_CLIENT]"

definition user_can_view_request :: "User \<Rightarrow> RepairRequest \<Rightarrow> bool" where
  "user_can_view_request user req =
     (let r = role_name (Some user) in
      if r \<in> set [ROLE_MANAGER, ROLE_OPERATOR, ROLE_QUALITY_MANAGER] then True
      else if is_master_role r then rr_master_id req = Some (u_id user)
      else if r = ROLE_CLIENT then rr_client_id req = Some (u_id user)
      else False)"

definition user_can_edit_request :: "User \<Rightarrow> RepairRequest \<Rightarrow> bool" where
  "user_can_edit_request user req =
     (let r = role_name (Some user) in
      if r \<in> set [ROLE_MANAGER, ROLE_OPERATOR, ROLE_QUALITY_MANAGER] then True
      else if is_master_role r then rr_master_id req = Some (u_id user)
      else if r = ROLE_CLIENT then
        rr_client_id req = Some (u_id user) \<and> \<not> rs_is_final (rr_status req)
      else False)"

definition user_can_delete_request :: "User \<Rightarrow> bool" where
  "user_can_delete_request user \<longleftrightarrow>
     role_name (Some user) \<in> set [ROLE_MANAGER, ROLE_OPERATOR]"

definition user_can_add_comment :: "User \<Rightarrow> RepairRequest \<Rightarrow> bool" where
  "user_can_add_comment user req \<longleftrightarrow>
     is_master_role (role_name (Some user)) \<and> rr_master_id req = Some (u_id user)"

definition user_can_assign_master :: "User \<Rightarrow> bool" where
  "user_can_assign_master user \<longleftrightarrow>
     role_name (Some user) \<in> set [ROLE_MANAGER, ROLE_OPERATOR, ROLE_QUALITY_MANAGER]"

definition user_can_change_status :: "User \<Rightarrow> RequestStatus \<Rightarrow> RequestStatus \<Rightarrow> bool" where
  "user_can_change_status user old_status new_status =
     (let r = role_name (Some user) in
      if r \<in> set [ROLE_MANAGER, ROLE_OPERATOR, ROLE_QUALITY_MANAGER] then True
      else if is_master_role r then
        (if rs_id old_status = rs_id new_status then True
         else if rs_is_final old_status \<and> \<not> rs_is_final new_status then False
         else True)
      else if r = ROLE_CLIENT then rs_id old_status = rs_id new_status
      else False)"

definition user_can_manage_users :: "User \<Rightarrow> bool" where
  "user_can_manage_users user \<longleftrightarrow> role_name (Some user) = ROLE_MANAGER"

definition user_can_view_statistics :: "User \<Rightarrow> bool" where
  "user_can_view_statistics user \<longleftrightarrow> role_name (Some user) = ROLE_MANAGER"

definition user_can_view_quality_desk :: "User \<Rightarrow> bool" where
  "user_can_view_quality_desk user \<longleftrightarrow>
     role_name (Some user) \<in> set [ROLE_QUALITY_MANAGER, ROLE_MANAGER]"

definition user_can_create_help_request :: "User \<Rightarrow> bool" where
  "user_can_create_help_request user \<longleftrightarrow> is_master_role (role_name (Some user))"

definition user_can_handle_help_request :: "User \<Rightarrow> bool" where
  "user_can_handle_help_request user \<longleftrightarrow>
     role_name (Some user) \<in> set [ROLE_QUALITY_MANAGER, ROLE_MANAGER]"

subsection \<open>The persistence collaborator\<close>

text \<open>
  The session is the content of the tables, each a list of rows in insertion order.
  \<^verbatim>\<open>db.get(Model, k)\<close> is the row whose primary key is \<open>k\<close>. A query without
  \<^verbatim>\<open>order_by\<close> reads the rows in that order, and \<^verbatim>\<open>first()\<close> takes the first that
  passes the filters (the engine filters this way on columns that are unique, or only
  asks whether a row exists). \<^verbatim>\<open>db.add\<close> of a new object stores it under a key the
  database allots (one above the largest key of the table), and the object returned
  carries that key, as it does once the caller has committed; \<^verbatim>\<open>db.add\<close> of a loaded
  object writes its attributes back to its row. Constraint checks and connection
  failures of the database are outside the engine and are not modelled: every query
  answers.
\<close>

record Session =
  users :: "User list"
  request_statuses :: "RequestStatus list"
  equipment_models :: "EquipmentModel list"
  issue_types :: "IssueType list"
  repair_requests :: "RepairRequest list"
  request_comments :: "RequestComment list"
  help_requests :: "HelpRequest list"

definition next_id :: "int list \<Rightarrow> int" where
  "next_id ids = fold max ids 0 + 1"

definition get_User :: "Session \<Rightarrow> int \<Rightarrow> User option" where
  "get_User db k = find (\<lambda>u. u_id u = k) (users db)"

definition get_RequestStatus :: "Session \<Rightarrow> int \<Rightarrow> RequestStatus option" where
  "get_RequestStatus db k = find (\<lambda>s. rs_id s = k) (request_statuses db)"

definition get_IssueType :: "Session \<Rightarrow> int \<Rightarrow> IssueType option" where
  "get_IssueType db k = find (\<lambda>t. it_id t = k) (issue_types db)"

definition get_RepairRequest :: "Session \<Rightarrow> int \<Rightarrow> RepairRequest option" where
  "get_RepairRequest db k = find (\<lambda>r. rr_id r = Some k) (repair_requests db)"

definition get_HelpRequest :: "Session \<Rightarrow> int \<Rightarrow> HelpRequest option" where
  "get_HelpRequest db k = find (\<lambda>h. hr_id h = k) (help_requests db)"

definition add_RepairRequest :: "Session \<Rightarrow> RepairRequest \<Rightarrow> RepairRequest \<times> Session" where
  "add_RepairRequest db req =
     (case rr_id req of
        None \<Rightarrow>
          (let r = req\<lparr>rr_id := Some (next_id (List.map_filter rr_id (repair_requests db)))\<rparr>
           in (r, db\<lparr>repair_requests := repair_requests db @ [r]\<rparr>))
      | Some k \<Rightarrow>
          (req, db\<lparr>repair_requests :=
                     map (\<lambda>r. if rr_id r = Some k then req else r) (repair_requests db)\<rparr>))"

definition update_HelpRequest :: "Session \<Rightarrow> HelpRequest \<Rightarrow> Session" where
  "update_HelpRequest db h =
     db\<lparr>help_requests := map (\<lambda>x. if hr_id x = hr_id h then h else x) (help_requests db)\<rparr>"

subsection \<open>Failures\<close>

text \<open>
  The exception classes of \<^verbatim>\<open>usecases.py\<close>, and the two built-in exceptions the engine
  can raise: \<^verbatim>\<open>RuntimeError\<close> (raised by \<^verbatim>\<open>services.get_new_request_status\<close>) and
  \<^verbatim>\<open>AttributeError\<close> (an attribute read on \<^verbatim>\<open>None\<close>). The messages are not modelled.
\<close>

datatype error =
    PermissionDeniedError
  | StatusChangeForbiddenError
  | RequestNotFoundError
  | HelpRequestNotFoundError
  | HelpRequestAlreadyOpenError
  | BusinessRuleViolationError
  | RuntimeError
  | AttributeError

text \<open>\<^verbatim>\<open>isinstance(e, DomainError)\<close>, and the class attribute \<^verbatim>\<open>code\<close>.\<close>

fun is_DomainError :: "error \<Rightarrow> bool" where
  "is_DomainError RuntimeError = False"
| "is_DomainError AttributeError = False"
| "is_DomainError _ = True"

fun error_code :: "error \<Rightarrow> string option" where
  "error_code PermissionDeniedError = Some ''forbidden''"
| "error_code StatusChangeForbiddenError = Some ''forbidden_status_change''"
| "error_code RequestNotFoundError = Some ''request_not_found''"
| "error_code HelpRequestNotFoundError = Some ''help_not_found''"
| "error_code HelpRequestAlreadyOpenError = Some ''help_exists''"
| "error_code BusinessRuleViolationError = Some ''db_error''"
| "error_code RuntimeError = None"
| "error_code AttributeError = None"

subsection \<open>services.py: queries\<close>

definition get_or_create_equipment_model ::
  "Session \<Rightarrow> int \<Rightarrow> pystr \<Rightarrow> EquipmentModel \<times> Session" where
  "get_or_create_equipment_model db equipment_type_id model_name =
     (let cleaned_name = strip model_name in
      case find (\<lambda>m. em_equipment_type_id m = equipment_type_id \<and> em_name m = cleaned_name)
             (equipment_models db) of
        Some existing \<Rightarrow> (existing, db)
      | None \<Rightarrow>
          (let created = \<lparr>em_id = next_id (map em_id (equipment_models db)),
                          em_equipment_type_id = equipment_type_id,
                          em_name = cleaned_name\<rparr>
           in (created, db\<lparr>equipment_models := equipment_models db @ [created]\<rparr>)))"

definition get_or_create_issue_type :: "Session \<Rightarrow> pystr \<Rightarrow> IssueType \<times> Session" where
  "get_or_create_issue_type db problem_description =
     (let name = normalize_issue_type_name problem_description in
      case find (\<lambda>t. it_name t = name) (issue_types db) of
        Some existing \<Rightarrow> (existing, db)
      | None \<Rightarrow>
          (let created = \<lparr>it_id = next_id (map it_id (issue_types db)), it_name = name\<rparr>
           in (created, db\<lparr>issue_types := issue_types db @ [created]\<rparr>)))"

definition get_new_request_status :: "Session \<Rightarrow> error + RequestStatus" where
  "get_new_request_status db =
     (case find (\<lambda>s. rs_name s = NEW_REQUEST_NAME) (request_statuses db) of
        Some status \<Rightarrow> Inr status
      | None \<Rightarrow>
          (case sort_key rs_id (filter (\<lambda>s. \<not> rs_is_final s) (request_statuses db)) of
             [] \<Rightarrow> Inl RuntimeError
           | status # _ \<Rightarrow> Inr status))"

subsection \<open>usecases.py: inputs\<close>

record RequestInput =
  ri_id :: "int option"
  ri_start_date :: date
  ri_equipment_type_id :: int
  ri_equipment_model_name :: pystr
  ri_issue_type_id :: "int option"
  ri_problem_description :: pystr
  ri_status_id :: "int option"
  ri_completion_date :: "date option"
  ri_due_date :: "date option"
  ri_repair_parts :: "pystr option"
  ri_master_id :: "int option"
  ri_client_id :: "int option"

record HelpRequestCreateInput =
  hc_request_id :: int
  hc_message :: pystr
  hc_proposed_due_date :: "date option"

record HelpRequestCloseInput =
  cl_help_id :: int
  cl_resolution_note :: pystr
  cl_assigned_master_id :: "int option"
  cl_new_due_date :: "date option"

text \<open>The truth value of an optional integer: \<^verbatim>\<open>None\<close> and \<^verbatim>\<open>0\<close> are falsy.\<close>

definition truthy :: "int option \<Rightarrow> bool" where
  "truthy x = (case x of None \<Rightarrow> False | Some k \<Rightarrow> k \<noteq> 0)"

subsection \<open>usecases.py: saving a request\<close>

text \<open>
  A use case returns its outcome (\<open>Inl\<close> the exception raised, \<open>Inr\<close> the object
  returned) and the session as the call leaves it. The helpers' leading underscore is
  dropped from their names.
\<close>

definition resolve_equipment_and_issue ::
  "Session \<Rightarrow> RequestInput \<Rightarrow> (EquipmentModel \<times> IssueType) \<times> Session" where
  "resolve_equipment_and_issue db data =
     (let (equipment_model, db1) =
            get_or_create_equipment_model db (ri_equipment_type_id data)
              (ri_equipment_model_name data);
          (issue_type_obj, db2) =
            (if truthy (ri_issue_type_id data) then
               (case get_IssueType db1 (the (ri_issue_type_id data)) of
                  Some t \<Rightarrow> (t, db1)
                | None \<Rightarrow> get_or_create_issue_type db1 (ri_problem_description data))
             else get_or_create_issue_type db1 (ri_problem_description data))
      in ((equipment_model, issue_type_obj), db2))"

definition resolve_new_status_for_create ::
  "Session \<Rightarrow> User \<Rightarrow> RequestInput \<Rightarrow> error + RequestStatus" where
  "resolve_new_status_for_create db user data =
     (let role = role_name (Some user) in
      if role = ROLE_CLIENT then get_new_request_status db
      else
        (case ri_status_id data of
           None \<Rightarrow> Inl BusinessRuleViolationError
         | Some sid \<Rightarrow>
             (case get_RequestStatus db sid of
                None \<Rightarrow> Inl BusinessRuleViolationError
              | Some status_obj \<Rightarrow> Inr status_obj)))"

definition resolve_new_status_for_update ::
  "Session \<Rightarrow> User \<Rightarrow> RepairRequest \<Rightarrow> RequestInput \<Rightarrow> error + RequestStatus" where
  "resolve_new_status_for_update db user req data =
     (let role = role_name (Some user);
          old_status = rr_status req
      in
      if role = ROLE_CLIENT then Inr old_status
      else if ri_status_id data = None \<or> ri_status_id data = Some (rs_id old_status)
      then Inr old_status
      else
        (case get_RequestStatus db (the (ri_status_id data)) of
           None \<Rightarrow> Inl BusinessRuleViolationError
         | Some new_status \<Rightarrow>
             if \<not> user_can_change_status user old_status new_status
             then Inl StatusChangeForbiddenError
             else Inr new_status))"

definition apply_completion_date ::
  "date \<Rightarrow> RepairRequest \<Rightarrow> RequestStatus \<Rightarrow> RequestInput \<Rightarrow> RepairRequest" where
  "apply_completion_date today req new_status data =
     (if rs_is_final new_status then
        req\<lparr>rr_completion_date :=
              (case ri_completion_date data of None \<Rightarrow> Some today | Some d \<Rightarrow> Some d)\<rparr>
      else req\<lparr>rr_completion_date := ri_completion_date data\<rparr>)"

definition apply_due_date :: "User \<Rightarrow> RepairRequest \<Rightarrow> RequestInput \<Rightarrow> RepairRequest" where
  "apply_due_date user req data =
     (let role = role_name (Some user) in
      if role \<in> set [ROLE_MANAGER, ROLE_OPERATOR, ROLE_QUALITY_MANAGER]
      then req\<lparr>rr_due_date := ri_due_date data\<rparr>
      else if rr_id req = None then req\<lparr>rr_due_date := None\<rparr>
      else req)"

definition apply_repair_parts :: "User \<Rightarrow> RepairRequest \<Rightarrow> RequestInput \<Rightarrow> RepairRequest" where
  "apply_repair_parts user req data =
     (let role = role_name (Some user) in
      if role \<in> set [ROLE_MANAGER, ROLE_OPERATOR, ROLE_MASTER, ROLE_SPECIALIST]
      then (let text = strip (or_empty (ri_repair_parts data))
            in req\<lparr>rr_repair_parts := or_None text\<rparr>)
      else if rr_id req = None then req\<lparr>rr_repair_parts := None\<rparr>
      else req)"

definition apply_master :: "User \<Rightarrow> RepairRequest \<Rightarrow> RequestInput \<Rightarrow> RepairRequest" where
  "apply_master user req data =
     (if user_can_assign_master user
      then req\<lparr>rr_master_id := (if truthy (ri_master_id data) then ri_master_id data else None)\<rparr>
      else if rr_id req = None then req\<lparr>rr_master_id := None\<rparr>
      else req)"

definition apply_client :: "User \<Rightarrow> RepairRequest \<Rightarrow> RequestInput \<Rightarrow> error + RepairRequest" where
  "apply_client user req data =
     (let role = role_name (Some user) in
      if role = ROLE_CLIENT then Inr (req\<lparr>rr_client_id := Some (u_id user)\<rparr>)
      else if role \<in> set [ROLE_MANAGER, ROLE_OPERATOR] then
        (if \<not> truthy (ri_client_id data) then Inl BusinessRuleViolationError
         else Inr (req\<lparr>rr_client_id := ri_client_id data\<rparr>))
      else if rr_id req = None then Inl BusinessRuleViolationError
      else Inr req)"

text \<open>
  \<^verbatim>\<open>models.RepairRequest()\<close>: every attribute is \<^verbatim>\<open>None\<close>. The five columns that
  \<^verbatim>\<open>save_request\<close> assigns before anything reads them (and the status object they
  refer to) start at an arbitrary value here.
\<close>

definition RepairRequest_new :: RepairRequest where
  "RepairRequest_new =
     \<lparr>rr_id = None, rr_start_date = 0, rr_equipment_model_id = 0, rr_issue_type_id = 0,
      rr_problem_description = [], rr_status_id = 0,
      rr_status = \<lparr>rs_id = 0, rs_name = [], rs_is_final = False\<rparr>,
      rr_completion_date = None, rr_due_date = None, rr_repair_parts = None,
      rr_master_id = None, rr_client_id = None\<rparr>"

text \<open>
  The first half of \<^verbatim>\<open>save_request\<close>: the request object and its new status, on the
  edit path (\<^verbatim>\<open>data.id is not None\<close>) and on the create path.
\<close>

definition load_or_new ::
  "Session \<Rightarrow> User \<Rightarrow> RequestInput \<Rightarrow> error + RepairRequest \<times> RequestStatus" where
  "load_or_new db user data =
     (case ri_id data of
        Some k \<Rightarrow>
          (case get_RepairRequest db k of
             None \<Rightarrow> Inl RequestNotFoundError
           | Some req \<Rightarrow>
               if \<not> user_can_edit_request user req then Inl PermissionDeniedError
               else
                 (case resolve_new_status_for_update db user req data of
                    Inl e \<Rightarrow> Inl e
                  | Inr new_status \<Rightarrow> Inr (req, new_status)))
      | None \<Rightarrow>
          if \<not> user_can_create_request user then Inl PermissionDeniedError
          else
            (case resolve_new_status_for_create db user data of
               Inl e \<Rightarrow> Inl e
             | Inr new_status \<Rightarrow> Inr (RepairRequest_new, new_status)))"

text \<open>
  The second half: the assignments to the object. \<^verbatim>\<open>req.status_id = new_status.id\<close>
  makes \<^verbatim>\<open>req.status\<close> the status of that key, which is \<^verbatim>\<open>new_status\<close>.
\<close>

definition assign_fields ::
  "date \<Rightarrow> User \<Rightarrow> RequestInput \<Rightarrow> EquipmentModel \<Rightarrow> IssueType \<Rightarrow> RepairRequest \<Rightarrow>
   RequestStatus \<Rightarrow> error + RepairRequest" where
  "assign_fields today user data equipment_model issue_type_obj req new_status =
     (let req1 = req\<lparr>rr_start_date := ri_start_date data,
                     rr_equipment_model_id := em_id equipment_model,
                     rr_issue_type_id := it_id issue_type_obj,
                     rr_problem_description := ri_problem_description data,
                     rr_status_id := rs_id new_status,
                     rr_status := new_status\<rparr>;
          req2 = apply_completion_date today req1 new_status data;
          req3 = apply_due_date user req2 data;
          req4 = apply_repair_parts user req3 data;
          req5 = apply_master user req4 data
      in apply_client user req5 data)"

definition save_request ::
  "date \<Rightarrow> Session \<Rightarrow> User \<Rightarrow> RequestInput \<Rightarrow> (error + RepairRequest) \<times> Session" where
  "save_request today db user data =
     (let ((equipment_model, issue_type_obj), db1) = resolve_equipment_and_issue db data in
      case load_or_new db1 user data of
        Inl e \<Rightarrow> (Inl e, db1)
      | Inr (req, new_status) \<Rightarrow>
          (case assign_fields today user data equipment_model issue_type_obj req new_status of
             Inl e \<Rightarrow> (Inl e, db1)
           | Inr req' \<Rightarrow>
               (let (stored, db2) = add_RepairRequest db1 req' in (Inr stored, db2))))"

subsection \<open>usecases.py: deleting and commenting\<close>

text \<open>\<^verbatim>\<open>db.delete(req)\<close> removes the request and, by the cascade of its relationships,
  its comments and its help requests.\<close>

definition delete_request :: "Session \<Rightarrow> User \<Rightarrow> int \<Rightarrow> (error + unit) \<times> Session" where
  "delete_request db user request_id =
     (case get_RepairRequest db request_id of
        None \<Rightarrow> (Inl RequestNotFoundError, db)
      | Some req \<Rightarrow>
          if \<not> user_can_delete_request user then (Inl PermissionDeniedError, db)
          else
            (Inr (),
             db\<lparr>repair_requests := filter (\<lambda>r. rr_id r \<noteq> rr_id req) (repair_requests db),
                request_comments :=
                  filter (\<lambda>c. Some (rc_request_id c) \<noteq> rr_id req) (request_comments db),
                help_requests :=
                  filter (\<lambda>h. Some (hr_request_id h) \<noteq> rr_id req) (help_requests db)\<rparr>))"

definition add_comment ::
  "Session \<Rightarrow> User \<Rightarrow> int \<Rightarrow> pystr \<Rightarrow> (error + RequestComment) \<times> Session" where
  "add_comment db user request_id message =
     (case get_RepairRequest db request_id of
        None \<Rightarrow> (Inl RequestNotFoundError, db)
      | Some req \<Rightarrow>
          if \<not> user_can_add_comment user req then (Inl PermissionDeniedError, db)
          else
            (let msg_clean = strip message in
             if msg_clean = [] then (Inl BusinessRuleViolationError, db)
             else
               (let comment = \<lparr>rc_id = next_id (map rc_id (request_comments db)),
                               rc_request_id = request_id,
                               rc_master_id = u_id user,
                               rc_message = msg_clean\<rparr>
                in (Inr comment, db\<lparr>request_comments := request_comments db @ [comment]\<rparr>))))"

subsection \<open>usecases.py: the help request workflow\<close>

definition create_help_request ::
  "Session \<Rightarrow> User \<Rightarrow> HelpRequestCreateInput \<Rightarrow> (error + HelpRequest) \<times> Session" where
  "create_help_request db user data =
     (if \<not> user_can_create_help_request user then (Inl PermissionDeniedError, db)
      else
        (case get_RepairRequest db (hc_request_id data) of
           None \<Rightarrow> (Inl RequestNotFoundError, db)
         | Some req \<Rightarrow>
             if rr_master_id req \<noteq> Some (u_id user) then (Inl PermissionDeniedError, db)
             else
               (let open_exists =
                      find (\<lambda>h. hr_request_id h = hc_request_id data \<and> hr_status h = STATUS_OPEN)
                        (help_requests db)
                in
                if open_exists \<noteq> None then (Inl HelpRequestAlreadyOpenError, db)
                else
                  (let msg_clean = strip (hc_message data) in
                   if msg_clean = [] then (Inl BusinessRuleViolationError, db)
                   else
                     (let help_req =
                            \<lparr>hr_id = next_id (map hr_id (help_requests db)),
                             hr_request_id = hc_request_id data,
                             hr_created_by_master_id = u_id user,
                             hr_quality_manager_id = None,
                             hr_assigned_master_id = None,
                             hr_status = STATUS_OPEN,
                             hr_message = msg_clean,
                             hr_resolution_note = None,
                             hr_proposed_due_date = hc_proposed_due_date data,
                             hr_closed_at = None\<rparr>
                      in (Inr help_req,
                          db\<lparr>help_requests := help_requests db @ [help_req]\<rparr>))))))"

text \<open>
  The checks of \<^verbatim>\<open>close_help_request\<close> that can raise, in the order of the source; they
  yield the help request, its repair request and the new master, if one is given.
\<close>

definition close_checks ::
  "Session \<Rightarrow> User \<Rightarrow> HelpRequestCloseInput \<Rightarrow>
   error + HelpRequest \<times> RepairRequest \<times> User option" where
  "close_checks db user data =
     (if \<not> user_can_handle_help_request user then Inl PermissionDeniedError
      else
        (case get_HelpRequest db (cl_help_id data) of
           None \<Rightarrow> Inl HelpRequestNotFoundError
         | Some help_req \<Rightarrow>
             if hr_status help_req \<noteq> STATUS_OPEN then Inl BusinessRuleViolationError
             else
               (case get_RepairRequest db (hr_request_id help_req) of
                  None \<Rightarrow> Inl RequestNotFoundError
                | Some req \<Rightarrow>
                    if (case cl_new_due_date data of
                          None \<Rightarrow> False
                        | Some d \<Rightarrow> d < rr_start_date req)
                    then Inl BusinessRuleViolationError
                    else
                      (case cl_assigned_master_id data of
                         None \<Rightarrow> Inr (help_req, req, None)
                       | Some m \<Rightarrow>
                           (case get_User db m of
                              None \<Rightarrow> Inl BusinessRuleViolationError
                            | Some master_user \<Rightarrow>
                                (case u_role master_user of
                                   None \<Rightarrow> Inl AttributeError
                                 | Some role \<Rightarrow>
                                     if \<not> is_master_role (ur_name role)
                                     then Inl BusinessRuleViolationError
                                     else Inr (help_req, req, Some master_user)))))))"

definition close_help_request ::
  "datetime \<Rightarrow> Session \<Rightarrow> User \<Rightarrow> HelpRequestCloseInput \<Rightarrow>
   (error + HelpRequest) \<times> Session" where
  "close_help_request now db user data =
     (case close_checks db user data of
        Inl e \<Rightarrow> (Inl e, db)
      | Inr (help_req, req, master) \<Rightarrow>
          (let (req1, help1) =
                 (case master of
                    None \<Rightarrow> (req, help_req)
                  | Some master_user \<Rightarrow>
                      (req\<lparr>rr_master_id := Some (u_id master_user)\<rparr>,
                       help_req\<lparr>hr_assigned_master_id := Some (u_id master_user)\<rparr>));
               req2 =
                 (case cl_new_due_date data of
                    None \<Rightarrow> req1
                  | Some d \<Rightarrow> req1\<lparr>rr_due_date := Some d\<rparr>);
               note_clean = strip (cl_resolution_note data);
               help2 = help1\<lparr>hr_resolution_note := or_None note_clean,
                             hr_quality_manager_id := Some (u_id user),
                             hr_status := STATUS_CLOSED,
                             hr_closed_at := Some now\<rparr>;
               db1 = snd (add_RepairRequest db req2);
               db2 = update_HelpRequest db1 help2
           in (Inr help2, db2)))"

subsection \<open>The callers of the use cases (main.py)\<close>

text \<open>
  Every handler of \<^verbatim>\<open>main.py\<close> runs one use case in one session and commits when it
  returns; when it raises, the session is rolled back (or closed uncommitted) and the
  tables stay as they were.
\<close>

definition commit_or_rollback :: "Session \<Rightarrow> (error + 'a) \<times> Session \<Rightarrow> Session" where
  "commit_or_rollback db res = (case fst res of Inl e \<Rightarrow> db | Inr x \<Rightarrow> snd res)"

datatype call =
    SaveRequest date User RequestInput
  | DeleteRequest User int
  | AddComment User int pystr
  | CreateHelpRequest User HelpRequestCreateInput
  | CloseHelpRequest datetime User HelpRequestCloseInput

fun handle :: "Session \<Rightarrow> call \<Rightarrow> Session" where
  "handle db (SaveRequest today user data) =
     commit_or_rollback db (save_request today db user data)"
| "handle db (DeleteRequest user request_id) =
     commit_or_rollback db (delete_request db user request_id)"
| "handle db (AddComment user request_id message) =
     commit_or_rollback db (add_comment db user request_id message)"
| "handle db (CreateHelpRequest user data) =
     commit_or_rollback db (create_help_request db user data)"
| "handle db (CloseHelpRequest now user data) =
     commit_or_rollback db (close_help_request now db user data)"

definition run :: "Session \<Rightarrow> call list \<Rightarrow> Session" where
  "run db calls = foldl handle db calls"

subsection \<open>Properties of a session\<close>

text \<open>The open help requests of a repair request, as \<^verbatim>\<open>create_help_request\<close> queries
  them, and the invariant that no repair request has two.\<close>

definition open_help_requests :: "Session \<Rightarrow> int \<Rightarrow> HelpRequest list" where
  "open_help_requests db request_id =
     filter (\<lambda>h. hr_request_id h = request_id \<and> hr_status h = STATUS_OPEN) (help_requests db)"

definition at_most_one_open :: "Session \<Rightarrow> bool" where
  "at_most_one_open db =
     list_all (\<lambda>h. length (open_help_requests db (hr_request_id h)) \<le> 1) (help_requests db)"

text \<open>A request whose current status is final has a completion date.\<close>

definition completion_set_when_final :: "Session \<Rightarrow> bool" where
  "completion_set_when_final db =
     list_all (\<lambda>r. \<not> rs_is_final (rr_status r) \<or> rr_completion_date r \<noteq> None)
       (repair_requests db)"

subsection \<open>Transformations of the inputs\<close>

text \<open>Exchanging the role names \<^verbatim>\<open>ROLE_MASTER\<close> and \<^verbatim>\<open>ROLE_SPECIALIST\<close>: in a role
  name, in a user, and in the users of a session that a predicate selects.\<close>

definition swap_role_name :: "pystr \<Rightarrow> pystr" where
  "swap_role_name n =
     (if n = ROLE_MASTER then ROLE_SPECIALIST
      else if n = ROLE_SPECIALIST then ROLE_MASTER
      else n)"

definition swap_role :: "User \<Rightarrow> User" where
  "swap_role u =
     u\<lparr>u_role := map_option (\<lambda>r. r\<lparr>ur_name := swap_role_name (ur_name r)\<rparr>) (u_role u)\<rparr>"

definition swap_users :: "(User \<Rightarrow> bool) \<Rightarrow> Session \<Rightarrow> Session" where
  "swap_users P db = db\<lparr>users := map (\<lambda>u. if P u then swap_role u else u) (users db)\<rparr>"

text \<open>Giving every repair request of a session another status.\<close>

definition with_statuses :: "(RepairRequest \<Rightarrow> RequestStatus) \<Rightarrow> Session \<Rightarrow> Session" where
  "with_statuses f db =
     db\<lparr>repair_requests :=
          map (\<lambda>r. r\<lparr>rr_status_id := rs_id (f r), rr_status := f r\<rparr>) (repair_requests db)\<rparr>"

subsection \<open>Sample data\<close>

definition sample_user :: "int \<Rightarrow> pystr \<Rightarrow> User" where
  "sample_user k role =
     \<lparr>u_id = k, u_fio = [85], u_phone = [48], u_login = [117], u_password_hash = [120],
      u_role_id = 1, u_role = Some \<lparr>ur_id = 1, ur_name = role\<rparr>\<rparr>"

definition status_new :: RequestStatus where
  "status_new = \<lparr>rs_id = 1, rs_name = NEW_REQUEST_NAME, rs_is_final = False\<rparr>"

definition status_work :: RequestStatus where
  "status_work = \<lparr>rs_id = 2, rs_name = [87], rs_is_final = False\<rparr>"

definition status_done :: RequestStatus where
  "status_done = \<lparr>rs_id = 3, rs_name = [68], rs_is_final = True\<rparr>"

text \<open>Request 10 of client 7, assigned to master 2, and a copy whose status is final.\<close>

definition sample_request :: RepairRequest where
  "sample_request =
     \<lparr>rr_id = Some 10, rr_start_date = 100, rr_equipment_model_id = 1, rr_issue_type_id = 1,
      rr_problem_description = [120], rr_status_id = 2, rr_status = status_work,
      rr_completion_date = None, rr_due_date = None, rr_repair_parts = None,
      rr_master_id = Some 2, rr_client_id = Some 7\<rparr>"

definition sample_request_done :: RepairRequest where
  "sample_request_done =
     sample_request\<lparr>rr_status_id := 3, rr_status := status_done, rr_completion_date := Some 105\<rparr>"

text \<open>A session with request 10 and no help request, and the inputs that open and close
  a help request for it.\<close>

definition sample_db :: Session where
  "sample_db =
     \<lparr>users = [sample_user 1 ROLE_MANAGER, sample_user 2 ROLE_MASTER,
               sample_user 3 ROLE_SPECIALIST, sample_user 5 ROLE_QUALITY_MANAGER,
               sample_user 7 ROLE_CLIENT],
      request_statuses = [status_new, status_work, status_done],
      equipment_models = [\<lparr>em_id = 1, em_equipment_type_id = 1, em_name = [77]\<rparr>],
      issue_types = [\<lparr>it_id = 1, it_name = [120]\<rparr>],
      repair_requests = [sample_request],
      request_comments = [],
      help_requests = []\<rparr>"

definition sample_open :: HelpRequestCreateInput where
  "sample_open = \<lparr>hc_request_id = 10, hc_message = [32, 104, 105], hc_proposed_due_date = None\<rparr>"

definition sample_close :: HelpRequestCloseInput where
  "sample_close =
     \<lparr>cl_help_id = 1, cl_resolution_note = [111, 107, 32], cl_assigned_master_id = Some 3,
      cl_new_due_date = Some 120\<rparr>"

text \<open>The sample session after master 2 has opened a help request for request 10.\<close>

definition sample_db_open :: Session where
  "sample_db_open = run sample_db [CreateHelpRequest (sample_user 2 ROLE_MASTER) sample_open]"

text \<open>A form for a new request: the equipment model and the issue type are those of
  the sample session, the status asked for is the final one.\<close>

definition sample_input :: RequestInput where
  "sample_input =
     \<lparr>ri_id = None, ri_start_date = 100, ri_equipment_type_id = 1,
      ri_equipment_model_name = [77], ri_issue_type_id = Some 1,
      ri_problem_description = [120], ri_status_id = Some 3, ri_completion_date = None,
      ri_due_date = Some 130, ri_repair_parts = Some [32, 112], ri_master_id = Some 2,
      ri_client_id = Some 7\<rparr>"


section \<open>Basic facts\<close>

lemma role_distinct:
  "distinct [[], ROLE_MANAGER, ROLE_MASTER, ROLE_SPECIALIST, ROLE_OPERATOR, ROLE_CLIENT,
             ROLE_QUALITY_MANAGER]"
  by (simp add: ROLE_MANAGER_def ROLE_MASTER_def ROLE_SPECIALIST_def ROLE_OPERATOR_def
        ROLE_CLIENT_def ROLE_QUALITY_MANAGER_def)

lemma role_neq [simp]:
  "ROLE_MANAGER \<noteq> []" "ROLE_MANAGER \<noteq> ROLE_MASTER" "ROLE_MANAGER \<noteq> ROLE_SPECIALIST"
  "ROLE_MANAGER \<noteq> ROLE_OPERATOR" "ROLE_MANAGER \<noteq> ROLE_CLIENT" "ROLE_MANAGER \<noteq> ROLE_QUALITY_MANAGER"
  "ROLE_MASTER \<noteq> []" "ROLE_MASTER \<noteq> ROLE_MANAGER" "ROLE_MASTER \<noteq> ROLE_SPECIALIST"
  "ROLE_MASTER \<noteq> ROLE_OPERATOR" "ROLE_MASTER \<noteq> ROLE_CLIENT" "ROLE_MASTER \<noteq> ROLE_QUALITY_MANAGER"
  "ROLE_SPECIALIST \<noteq> []" "ROLE_SPECIALIST \<noteq> ROLE_MANAGER" "ROLE_SPECIALIST \<noteq> ROLE_MASTER"
  "ROLE_SPECIALIST \<noteq> ROLE_OPERATOR" "ROLE_SPECIALIST \<noteq> ROLE_CLIENT" "ROLE_SPECIALIST \<noteq> ROLE_QUALITY_MANAGER"
  "ROLE_OPERATOR \<noteq> []" "ROLE_OPERATOR \<noteq> ROLE_MANAGER" "ROLE_OPERATOR \<noteq> ROLE_MASTER"
  "ROLE_OPERATOR \<noteq> ROLE_SPECIALIST" "ROLE_OPERATOR \<noteq> ROLE_CLIENT" "ROLE_OPERATOR \<noteq> ROLE_QUALITY_MANAGER"
  "ROLE_CLIENT \<noteq> []" "ROLE_CLIENT \<noteq> ROLE_MANAGER" "ROLE_CLIENT \<noteq> ROLE_MASTER"
  "ROLE_CLIENT \<noteq> ROLE_SPECIALIST" "ROLE_CLIENT \<noteq> ROLE_OPERATOR" "ROLE_CLIENT \<noteq> ROLE_QUALITY_MANAGER"
  "ROLE_QUALITY_MANAGER \<noteq> []" "ROLE_QUALITY_MANAGER \<noteq> ROLE_MANAGER" "ROLE_QUALITY_MANAGER \<noteq> ROLE_MASTER"
  "ROLE_QUALITY_MANAGER \<noteq> ROLE_SPECIALIST" "ROLE_QUALITY_MANAGER \<noteq> ROLE_OPERATOR" "ROLE_QUALITY_MANAGER \<noteq> ROLE_CLIENT"
  "[] \<noteq> ROLE_MANAGER" "[] \<noteq> ROLE_MASTER" "[] \<noteq> ROLE_SPECIALIST"
  "[] \<noteq> ROLE_OPERATOR" "[] \<noteq> ROLE_CLIENT" "[] \<noteq> ROLE_QUALITY_MANAGER"
  using role_distinct by auto

lemma status_neq [simp]: "STATUS_OPEN \<noteq> STATUS_CLOSED" "STATUS_CLOSED \<noteq> STATUS_OPEN"
  by (simp_all add: STATUS_OPEN_def STATUS_CLOSED_def)

lemma role_name_sample [simp]: "role_name (Some (sample_user k r)) = r" "u_id (sample_user k r) = k"
  by (simp_all add: role_name_def sample_user_def)

lemma is_master_role_simps [simp]:
  "is_master_role ROLE_MASTER" "is_master_role ROLE_SPECIALIST"
  "\<not> is_master_role ROLE_MANAGER" "\<not> is_master_role ROLE_OPERATOR"
  "\<not> is_master_role ROLE_CLIENT" "\<not> is_master_role ROLE_QUALITY_MANAGER" "\<not> is_master_role []"
  by (simp_all add: is_master_role_def)

lemma u_role_sample [simp]: "u_role (sample_user k r) = Some \<lparr>ur_id = 1, ur_name = r\<rparr>"
  by (simp add: sample_user_def)

lemma strip_sample [simp]: "strip [32, 104, 105] = [104, 105]" "strip [111, 107, 32] = [111, 107]"
  by (simp_all add: strip_def lstrip_def rstrip_def isspace_def)

lemmas sample_defs = sample_db_def sample_open_def sample_close_def sample_request_def
  status_new_def status_work_def status_done_def

section \<open>Facts about stripping whitespace\<close>

lemma lstrip_decomp:
  "\<exists>pre. s = pre @ lstrip s \<and> list_all isspace pre"
proof -
  have "s = takeWhile isspace s @ lstrip s" by (simp add: lstrip_def)
  moreover have "list_all isspace (takeWhile isspace s)"
    by (auto simp: list_all_iff dest: set_takeWhileD)
  ultimately show ?thesis by blast
qed

lemma rstrip_decomp:
  "\<exists>suf. s = rstrip s @ suf \<and> list_all isspace suf"
proof -
  have "rev (takeWhile isspace (rev s) @ dropWhile isspace (rev s)) = s"
    by (simp only: takeWhile_dropWhile_id rev_rev_ident)
  then have "s = rstrip s @ rev (takeWhile isspace (rev s))"
    by (simp only: rev_append rstrip_def)
  moreover have "list_all isspace (rev (takeWhile isspace (rev s)))"
    by (auto simp: list_all_iff dest: set_takeWhileD)
  ultimately show ?thesis by blast
qed

lemma strip_decomp:
  "\<exists>pre suf. s = pre @ strip s @ suf \<and> list_all isspace pre \<and> list_all isspace suf"
proof -
  from lstrip_decomp obtain pre where p: "s = pre @ lstrip s" "list_all isspace pre" by blast
  from rstrip_decomp[of "lstrip s"] obtain suf where
    q: "lstrip s = strip s @ suf" "list_all isspace suf"
    by (auto simp: strip_def)
  from p q have "s = pre @ strip s @ suf" by simp
  with p(2) q(2) show ?thesis by blast
qed

lemma lstrip_hd: "lstrip s \<noteq> [] \<Longrightarrow> \<not> isspace (hd (lstrip s))"
  unfolding lstrip_def by (rule hd_dropWhile)

lemma rstrip_last: "rstrip s \<noteq> [] \<Longrightarrow> \<not> isspace (last (rstrip s))"
proof -
  assume a: "rstrip s \<noteq> []"
  then have n: "dropWhile isspace (rev s) \<noteq> []" by (simp add: rstrip_def)
  then have "\<not> isspace (hd (dropWhile isspace (rev s)))" by (rule hd_dropWhile)
  with n show ?thesis by (simp add: rstrip_def last_rev)
qed

lemma strip_ends:
  assumes "strip s \<noteq> []"
  shows "\<not> isspace (hd (strip s))" and "\<not> isspace (last (strip s))"
proof -
  from assms show "\<not> isspace (last (strip s))" unfolding strip_def by (rule rstrip_last)
  from rstrip_decomp[of "lstrip s"] obtain suf where q: "lstrip s = strip s @ suf"
    by (auto simp: strip_def)
  with assms have "lstrip s \<noteq> []" and "hd (lstrip s) = hd (strip s)" by auto
  with lstrip_hd[of s] show "\<not> isspace (hd (strip s))" by simp
qed

lemma strip_Nil_iff: "strip s = [] \<longleftrightarrow> list_all isspace s"
proof
  assume "strip s = []"
  with strip_decomp[of s] show "list_all isspace s" by (auto simp: list_all_iff)
next
  assume a: "list_all isspace s"
  then have "lstrip s = []" by (simp add: lstrip_def list_all_iff)
  then show "strip s = []" by (simp add: strip_def rstrip_def)
qed

text \<open>These properties determine the result of \<^verbatim>\<open>strip\<close>.\<close>

lemma strip_unique:
  assumes "s = pre @ n @ suf" "list_all isspace pre" "list_all isspace suf"
    "n \<noteq> []" "\<not> isspace (hd n)" "\<not> isspace (last n)"
  shows "strip s = n"
proof -
  have "dropWhile isspace (pre @ n @ suf) = dropWhile isspace (n @ suf)"
    using assms(2) by (intro dropWhile_append2) (simp add: list_all_iff)
  also have "\<dots> = n @ suf"
    using assms(4,5) by (simp add: dropWhile_eq_self_iff)
  finally have l: "lstrip s = n @ suf" by (simp add: lstrip_def assms(1))
  have "dropWhile isspace (rev suf @ rev n) = dropWhile isspace (rev n)"
    using assms(3) by (intro dropWhile_append2) (simp add: list_all_iff)
  also have "\<dots> = rev n"
    using assms(4,6) by (simp add: dropWhile_eq_self_iff hd_rev)
  finally show ?thesis by (simp add: strip_def rstrip_def l)
qed

section \<open>Facts about lists and about the help request workflow\<close>

lemma find_map_inv:
  "(\<And>x. x \<in> set xs \<Longrightarrow> P (f x) = P x) \<Longrightarrow> find P (map f xs) = map_option f (find P xs)"
  by (induction xs) auto

lemma find_Some_D: "find P xs = Some x \<Longrightarrow> x \<in> set xs \<and> P x"
  by (induction xs) (auto split: if_splits)

lemma find_None_iff': "find P xs = None \<longleftrightarrow> (\<forall>x\<in>set xs. \<not> P x)"
  by (induction xs) auto

lemma length_filter_map_le:
  "(\<And>x. x \<in> set xs \<Longrightarrow> P (f x) \<Longrightarrow> P x) \<Longrightarrow>
   length (filter P (map f xs)) \<le> length (filter P xs)"
  by (induction xs) auto

lemma length_filter_conj_le:
  "length (filter (\<lambda>x. Q x \<and> P x) xs) \<le> length (filter P xs)"
  by (induction xs) auto

lemma at_most_one_open_iff:
  "at_most_one_open db \<longleftrightarrow> (\<forall>t. length (open_help_requests db t) \<le> 1)"
proof
  assume a: "at_most_one_open db"
  show "\<forall>t. length (open_help_requests db t) \<le> 1"
  proof
    fix t
    show "length (open_help_requests db t) \<le> 1"
    proof (cases "open_help_requests db t")
      case Nil
      then show ?thesis by simp
    next
      case (Cons h hs)
      then have "h \<in> set (open_help_requests db t)" by simp
      then have "h \<in> set (help_requests db)" "hr_request_id h = t"
        by (simp_all add: open_help_requests_def)
      with a show ?thesis by (auto simp: at_most_one_open_def list_all_iff)
    qed
  qed
next
  assume "\<forall>t. length (open_help_requests db t) \<le> 1"
  then show "at_most_one_open db" by (simp add: at_most_one_open_def list_all_iff)
qed

lemma at_most_one_open_mono:
  assumes "at_most_one_open db"
    and "\<And>t. length (open_help_requests db' t) \<le> length (open_help_requests db t)"
  shows "at_most_one_open db'"
  using assms unfolding at_most_one_open_iff by (meson order_trans)

lemma at_most_one_open_cong:
  "help_requests db' = help_requests db \<Longrightarrow> at_most_one_open db' = at_most_one_open db"
  by (simp add: at_most_one_open_def open_help_requests_def)

subsection \<open>What the helpers of save leave alone\<close>

lemma get_or_create_equipment_model_frame:
  "get_or_create_equipment_model db t n = (m, db') \<Longrightarrow>
   users db' = users db \<and> request_statuses db' = request_statuses db \<and>
   issue_types db' = issue_types db \<and> repair_requests db' = repair_requests db \<and>
   request_comments db' = request_comments db \<and> help_requests db' = help_requests db"
  by (auto simp: get_or_create_equipment_model_def Let_def split: option.splits)

lemma get_or_create_issue_type_frame:
  "get_or_create_issue_type db d = (t, db') \<Longrightarrow>
   users db' = users db \<and> request_statuses db' = request_statuses db \<and>
   equipment_models db' = equipment_models db \<and> repair_requests db' = repair_requests db \<and>
   request_comments db' = request_comments db \<and> help_requests db' = help_requests db"
  by (auto simp: get_or_create_issue_type_def Let_def split: option.splits)

lemma resolve_equipment_and_issue_frame:
  assumes "resolve_equipment_and_issue db data = (mt, db')"
  shows "users db' = users db \<and> request_statuses db' = request_statuses db \<and>
   repair_requests db' = repair_requests db \<and>
   request_comments db' = request_comments db \<and> help_requests db' = help_requests db"
proof -
  obtain m db1 where 1: "get_or_create_equipment_model db (ri_equipment_type_id data)
              (ri_equipment_model_name data) = (m, db1)" by force
  obtain t db2 where 2: "get_or_create_issue_type db1 (ri_problem_description data) = (t, db2)"
    by force
  from assms 1 2 have "db' = db1 \<or> db' = db2"
    by (auto simp: resolve_equipment_and_issue_def split: if_splits option.splits)
  with get_or_create_equipment_model_frame[OF 1] get_or_create_issue_type_frame[OF 2]
  show ?thesis by auto
qed

lemma add_RepairRequest_frame:
  "add_RepairRequest db r = (r', db') \<Longrightarrow>
   users db' = users db \<and> request_statuses db' = request_statuses db \<and>
   equipment_models db' = equipment_models db \<and> issue_types db' = issue_types db \<and>
   request_comments db' = request_comments db \<and> help_requests db' = help_requests db"
  by (auto simp: add_RepairRequest_def Let_def split: option.splits)

lemma save_request_help_requests:
  "help_requests (snd (save_request today db user data)) = help_requests db"
proof -
  obtain m t db1 where 1: "resolve_equipment_and_issue db data = ((m, t), db1)"
    by (cases "resolve_equipment_and_issue db data") auto
  note f1 = resolve_equipment_and_issue_frame[OF 1]
  show ?thesis
    using f1
    by (auto simp: save_request_def 1 Let_def split: sum.splits prod.splits
        dest: add_RepairRequest_frame)
qed

lemma add_comment_help_requests:
  "help_requests (snd (add_comment db user k msg)) = help_requests db"
  by (auto simp: add_comment_def Let_def split: option.splits)

lemma delete_request_open:
  "length (open_help_requests (snd (delete_request db user k)) t)
     \<le> length (open_help_requests db t)"
  by (auto simp: delete_request_def open_help_requests_def length_filter_conj_le
      split: option.splits)


lemma update_HelpRequest_open:
  assumes "hr_status h \<noteq> STATUS_OPEN"
  shows "length (open_help_requests (update_HelpRequest db h) t)
           \<le> length (open_help_requests db t)"
proof -
  have "length (filter (\<lambda>x. hr_request_id x = t \<and> hr_status x = STATUS_OPEN)
          (map (\<lambda>x. if hr_id x = hr_id h then h else x) (help_requests db)))
        \<le> length (filter (\<lambda>x. hr_request_id x = t \<and> hr_status x = STATUS_OPEN)
          (help_requests db))"
    using assms by (intro length_filter_map_le) (auto split: if_splits)
  then show ?thesis by (simp add: open_help_requests_def update_HelpRequest_def)
qed

lemma close_help_request_Inr:
  fixes now :: datetime and user :: User and data :: HelpRequestCloseInput
  assumes "close_checks db user data = Inr (h, r, m)"
  defines "h1 \<equiv> (case m of None \<Rightarrow> h | Some mu \<Rightarrow> h\<lparr>hr_assigned_master_id := Some (u_id mu)\<rparr>)"
  defines "r1 \<equiv> (case m of None \<Rightarrow> r | Some mu \<Rightarrow> r\<lparr>rr_master_id := Some (u_id mu)\<rparr>)"
  defines "r2 \<equiv> (case cl_new_due_date data of None \<Rightarrow> r1 | Some d \<Rightarrow> r1\<lparr>rr_due_date := Some d\<rparr>)"
  defines "h2 \<equiv> h1\<lparr>hr_resolution_note := or_None (strip (cl_resolution_note data)),
                     hr_quality_manager_id := Some (u_id user),
                     hr_status := STATUS_CLOSED,
                     hr_closed_at := Some now\<rparr>"
  shows "close_help_request now db user data =
           (Inr h2, update_HelpRequest (snd (add_RepairRequest db r2)) h2)"
  using assms(1) unfolding close_help_request_def h1_def r1_def r2_def h2_def
  by (auto simp: Let_def split: option.splits)

lemma close_help_request_open:
  "length (open_help_requests (snd (close_help_request now db user data)) t)
     \<le> length (open_help_requests db t)"
proof (cases "close_checks db user data")
  case (Inl e)
  then show ?thesis by (simp add: close_help_request_def)
next
  case (Inr x)
  obtain h r m where x: "x = (h, r, m)" by (cases x) auto
  from close_help_request_Inr[OF Inr[unfolded x], of now]
  obtain h2 r2 where snd_eq: "snd (close_help_request now db user data) =
      update_HelpRequest (snd (add_RepairRequest db r2)) h2" and closed: "hr_status h2 = STATUS_CLOSED"
    by simp
  have "help_requests (snd (add_RepairRequest db r2)) = help_requests db"
    using add_RepairRequest_frame[of db r2] by (cases "add_RepairRequest db r2") auto
  then have "open_help_requests (snd (add_RepairRequest db r2)) t = open_help_requests db t"
    by (simp add: open_help_requests_def)
  moreover have "hr_status h2 \<noteq> STATUS_OPEN" using closed by (simp add: STATUS_OPEN_def STATUS_CLOSED_def)
  ultimately show ?thesis
    using update_HelpRequest_open[of h2 "snd (add_RepairRequest db r2)" t] snd_eq by simp
qed


lemma create_help_request_cases:
  "create_help_request db user data = (out, db') \<Longrightarrow>
   (\<exists>e. out = Inl e \<and> db' = db) \<or>
   (\<exists>h. out = Inr h \<and> db' = db\<lparr>help_requests := help_requests db @ [h]\<rparr>
        \<and> open_help_requests db (hc_request_id data) = []
        \<and> hr_request_id h = hc_request_id data \<and> hr_status h = STATUS_OPEN)"
  by (auto simp: create_help_request_def Let_def open_help_requests_def find_None_iff'
      filter_empty_conv split: if_splits option.splits)

lemma create_help_request_inv:
  assumes "at_most_one_open db"
  shows "at_most_one_open (snd (create_help_request db user data))"
proof -
  obtain out db' where r: "create_help_request db user data = (out, db')"
    by (cases "create_help_request db user data") auto
  from create_help_request_cases[OF r] show ?thesis
  proof
    assume "\<exists>e. out = Inl e \<and> db' = db"
    with assms r show ?thesis by auto
  next
    assume "\<exists>h. out = Inr h \<and> db' = db\<lparr>help_requests := help_requests db @ [h]\<rparr>
        \<and> open_help_requests db (hc_request_id data) = []
        \<and> hr_request_id h = hc_request_id data \<and> hr_status h = STATUS_OPEN"
    then obtain h where h: "db' = db\<lparr>help_requests := help_requests db @ [h]\<rparr>"
      "open_help_requests db (hc_request_id data) = []" "hr_request_id h = hc_request_id data"
      by auto
    have "length (open_help_requests db' t) \<le> 1" for t
    proof (cases "t = hc_request_id data")
      case True
      with h show ?thesis by (simp add: open_help_requests_def)
    next
      case False
      with h have "open_help_requests db' t = open_help_requests db t"
        by (simp add: open_help_requests_def)
      with assms show ?thesis by (simp add: at_most_one_open_iff)
    qed
    with r show ?thesis by (simp add: at_most_one_open_iff)
  qed
qed



lemma save_request_inv:
  "at_most_one_open db \<Longrightarrow> at_most_one_open (snd (save_request today db user data))"
  using at_most_one_open_cong[OF save_request_help_requests] by simp

lemma add_comment_inv:
  "at_most_one_open db \<Longrightarrow> at_most_one_open (snd (add_comment db user k msg))"
  using at_most_one_open_cong[OF add_comment_help_requests] by simp

lemma delete_request_inv:
  "at_most_one_open db \<Longrightarrow> at_most_one_open (snd (delete_request db user k))"
  by (erule at_most_one_open_mono) (rule delete_request_open)

lemma close_help_request_inv:
  "at_most_one_open db \<Longrightarrow> at_most_one_open (snd (close_help_request now db user data))"
  by (erule at_most_one_open_mono) (rule close_help_request_open)

lemma commit_or_rollback_cases:
  "P db \<Longrightarrow> P (snd res) \<Longrightarrow> P (commit_or_rollback db res)"
  by (simp add: commit_or_rollback_def split: sum.splits)

lemma handle_inv: "at_most_one_open db \<Longrightarrow> at_most_one_open (handle db c)"
  by (cases c)
    (simp_all add: commit_or_rollback_cases save_request_inv add_comment_inv delete_request_inv
      close_help_request_inv create_help_request_inv)

lemma run_inv: "at_most_one_open db \<Longrightarrow> at_most_one_open (run db calls)"
  unfolding run_def by (induction calls arbitrary: db) (simp_all add: handle_inv)


lemma close_checks_InrD:
  assumes "close_checks db user data = Inr (h, r, mu)"
  shows "user_can_handle_help_request user"
    and "get_HelpRequest db (cl_help_id data) = Some h"
    and "hr_status h = STATUS_OPEN"
    and "get_RepairRequest db (hr_request_id h) = Some r"
    and "\<And>d. cl_new_due_date data = Some d \<Longrightarrow> rr_start_date r \<le> d"
    and "cl_assigned_master_id data = None \<Longrightarrow> mu = None"
    and "\<And>k. cl_assigned_master_id data = Some k \<Longrightarrow>
           \<exists>u role. mu = Some u \<and> get_User db k = Some u \<and> u_role u = Some role \<and>
                    is_master_role (ur_name role)"
  using assms
  by (auto simp: close_checks_def split: if_splits option.splits)

lemma close_help_request_InrD:
  assumes "close_help_request now db user data = (Inr h', db')"
  obtains h r mu where "close_checks db user data = Inr (h, r, mu)"
proof (cases "close_checks db user data")
  case (Inl e)
  with assms show ?thesis by (simp add: close_help_request_def)
next
  case (Inr x)
  then show ?thesis using that by (cases x) auto
qed

lemma two_in_filter:
  assumes "x \<in> set xs" "y \<in> set xs" "x \<noteq> y" "P x" "P y"
  shows "2 \<le> length (filter P xs)"
proof -
  have "{x, y} \<subseteq> set (filter P xs)" using assms by auto
  then have "card {x, y} \<le> card (set (filter P xs))" by (intro card_mono) auto
  also have "\<dots> \<le> length (filter P xs)" by (rule card_length)
  finally show ?thesis using assms(3) by simp
qed

lemma closed_none_open:
  assumes inv: "at_most_one_open db"
    and closed: "close_help_request now db qm cdata = (Inr h', db')"
  shows "open_help_requests db' (hr_request_id h') = []"
proof -
  from closed obtain h r mu where cc: "close_checks db qm cdata = Inr (h, r, mu)"
    by (rule close_help_request_InrD)
  note res = close_help_request_Inr[OF cc, of now]
  from closed res obtain r2 where
    h': "hr_id h' = hr_id h" "hr_request_id h' = hr_request_id h" "hr_status h' = STATUS_CLOSED"
    and db': "db' = update_HelpRequest (snd (add_RepairRequest db r2)) h'"
    by (auto split: option.splits)
  have hs: "help_requests (snd (add_RepairRequest db r2)) = help_requests db"
    using add_RepairRequest_frame[of db r2] by (cases "add_RepairRequest db r2") auto
  from close_checks_InrD(2,3)[OF cc] have hin: "h \<in> set (help_requests db)"
    and hid: "hr_id h = cl_help_id cdata" and hopen: "hr_status h = STATUS_OPEN"
    by (auto simp: get_HelpRequest_def dest: find_Some_D)
  have "\<not> (hr_request_id y = hr_request_id h' \<and> hr_status y = STATUS_OPEN)"
    if y: "y \<in> set (help_requests db')" for y
  proof
    assume yo: "hr_request_id y = hr_request_id h' \<and> hr_status y = STATUS_OPEN"
    from y db' hs have "y = h' \<or> (y \<in> set (help_requests db) \<and> hr_id y \<noteq> hr_id h')"
      by (auto simp: update_HelpRequest_def split: if_splits)
    with yo h'(3) have yin: "y \<in> set (help_requests db)" and yid: "hr_id y \<noteq> hr_id h"
      using h'(1) by (auto simp: STATUS_OPEN_def STATUS_CLOSED_def)
    then have "y \<noteq> h" by auto
    from two_in_filter[OF yin hin this,
        of "\<lambda>x. hr_request_id x = hr_request_id h \<and> hr_status x = STATUS_OPEN"] yo hopen h'(2)
    have "2 \<le> length (open_help_requests db (hr_request_id h))"
      by (simp add: open_help_requests_def)
    with inv show False unfolding at_most_one_open_iff
      by (metis Suc_1 not_less_eq_eq)
  qed
  then show ?thesis by (auto simp: open_help_requests_def filter_empty_conv)
qed

lemma create_help_request_succeeds:
  assumes "user_can_create_help_request user"
    and "get_RepairRequest db (hc_request_id data) = Some req"
    and "rr_master_id req = Some (u_id user)"
    and "open_help_requests db (hc_request_id data) = []"
    and "strip (hc_message data) \<noteq> []"
  shows "\<exists>h. create_help_request db user data =
             (Inr h, db\<lparr>help_requests := help_requests db @ [h]\<rparr>)
           \<and> hr_request_id h = hc_request_id data
           \<and> hr_created_by_master_id h = u_id user
           \<and> hr_status h = STATUS_OPEN
           \<and> hr_message h = strip (hc_message data)
           \<and> hr_proposed_due_date h = hc_proposed_due_date data"
proof -
  from assms(4) have "find (\<lambda>h. hr_request_id h = hc_request_id data \<and> hr_status h = STATUS_OPEN)
                        (help_requests db) = None"
    by (simp add: open_help_requests_def find_None_iff' filter_empty_conv)
  with assms(1,2,3,5) show ?thesis
    by (simp add: create_help_request_def Let_def)
qed

lemma create_help_request_blocked:
  assumes "open_help_requests db (hc_request_id data) \<noteq> []"
  shows "\<exists>e. create_help_request db user data = (Inl e, db)"
    and "user_can_create_help_request user \<Longrightarrow>
         get_RepairRequest db (hc_request_id data) = Some req \<Longrightarrow>
         rr_master_id req = Some (u_id user) \<Longrightarrow>
         create_help_request db user data = (Inl HelpRequestAlreadyOpenError, db)"
proof -
  from assms have ex: "find (\<lambda>h. hr_request_id h = hc_request_id data \<and> hr_status h = STATUS_OPEN)
                        (help_requests db) \<noteq> None"
    by (simp add: open_help_requests_def find_None_iff' filter_empty_conv)
  then show "\<exists>e. create_help_request db user data = (Inl e, db)"
    by (auto simp: create_help_request_def Let_def split: option.splits)
  show "user_can_create_help_request user \<Longrightarrow>
         get_RepairRequest db (hc_request_id data) = Some req \<Longrightarrow>
         rr_master_id req = Some (u_id user) \<Longrightarrow>
         create_help_request db user data = (Inl HelpRequestAlreadyOpenError, db)"
    using ex by (auto simp: create_help_request_def Let_def split: option.splits)
qed

section \<open>Facts about closing a help request\<close>

lemma find_map_replace:
  "P y \<Longrightarrow> find P xs = Some x \<Longrightarrow> find P (map (\<lambda>z. if P z then y else z) xs) = Some y"
  by (induction xs) (auto split: if_splits)

lemma get_HelpRequest_update:
  "get_HelpRequest db (hr_id h) = Some h0 \<Longrightarrow>
   get_HelpRequest (update_HelpRequest db h) (hr_id h) = Some h"
  unfolding get_HelpRequest_def update_HelpRequest_def
  using find_map_replace[of "\<lambda>x. hr_id x = hr_id h" h "help_requests db" h0] by simp

lemma get_RepairRequest_add:
  "rr_id r = Some k \<Longrightarrow> get_RepairRequest db k = Some r0 \<Longrightarrow>
   get_RepairRequest (snd (add_RepairRequest db r)) k = Some r"
  unfolding get_RepairRequest_def add_RepairRequest_def
  using find_map_replace[of "\<lambda>x. rr_id x = Some k" r "repair_requests db" r0] by simp

lemma get_HelpRequest_add_RepairRequest:
  "get_HelpRequest (snd (add_RepairRequest db r)) k = get_HelpRequest db k"
  using add_RepairRequest_frame[of db r] 
  by (cases "add_RepairRequest db r") (auto simp: get_HelpRequest_def)

lemma get_RepairRequest_update_HelpRequest:
  "get_RepairRequest (update_HelpRequest db h) k = get_RepairRequest db k"
  by (simp add: get_RepairRequest_def update_HelpRequest_def)

lemma get_HelpRequest_id: "get_HelpRequest db k = Some h \<Longrightarrow> hr_id h = k"
  by (auto simp: get_HelpRequest_def dest: find_Some_D)

lemma get_RepairRequest_id: "get_RepairRequest db k = Some r \<Longrightarrow> rr_id r = Some k"
  by (auto simp: get_RepairRequest_def dest: find_Some_D)

lemma get_User_id: "get_User db k = Some u \<Longrightarrow> u_id u = k"
  by (auto simp: get_User_def dest: find_Some_D)

lemma close_help_request_success:
  assumes ok: "close_help_request now db user data = (Inr h', db')"
  shows "get_HelpRequest db' (cl_help_id data) = Some h'"
    and "hr_resolution_note h' = or_None (strip (cl_resolution_note data))"
    and "hr_quality_manager_id h' = Some (u_id user)"
    and "hr_status h' = STATUS_CLOSED"
    and "hr_closed_at h' = Some now"
    and "\<exists>r'. get_RepairRequest db' (hr_request_id h') = Some r'
           \<and> (\<forall>m. cl_assigned_master_id data = Some m \<longrightarrow>
                  rr_master_id r' = Some m \<and> hr_assigned_master_id h' = Some m
                  \<and> (\<exists>u role. get_User db m = Some u \<and> u_role u = Some role
                        \<and> is_master_role (ur_name role)))
           \<and> (\<forall>d. cl_new_due_date data = Some d \<longrightarrow> rr_due_date r' = Some d)"
proof -
  from ok obtain h r mu where cc: "close_checks db user data = Inr (h, r, mu)"
    by (rule close_help_request_InrD)
  note d = close_checks_InrD[OF cc]
  define r1 where "r1 = (case mu of None \<Rightarrow> r | Some u \<Rightarrow> r\<lparr>rr_master_id := Some (u_id u)\<rparr>)"
  define r2 where "r2 = (case cl_new_due_date data of None \<Rightarrow> r1
                          | Some d \<Rightarrow> r1\<lparr>rr_due_date := Some d\<rparr>)"
  define h1 where "h1 = (case mu of None \<Rightarrow> h
                          | Some u \<Rightarrow> h\<lparr>hr_assigned_master_id := Some (u_id u)\<rparr>)"
  from close_help_request_Inr[OF cc, of now] ok
  have h': "h' = h1\<lparr>hr_resolution_note := or_None (strip (cl_resolution_note data)),
                     hr_quality_manager_id := Some (u_id user),
                     hr_status := STATUS_CLOSED, hr_closed_at := Some now\<rparr>"
    and db': "db' = update_HelpRequest (snd (add_RepairRequest db r2)) h'"
    unfolding r2_def r1_def h1_def by simp_all
  have id1: "hr_id h1 = cl_help_id data" "hr_request_id h1 = hr_request_id h"
    using get_HelpRequest_id[OF d(2)] by (simp_all add: h1_def split: option.splits)
  then have id': "hr_id h' = cl_help_id data" "hr_request_id h' = hr_request_id h"
    by (simp_all add: h')
  show "get_HelpRequest db' (cl_help_id data) = Some h'"
    using get_HelpRequest_update[of "snd (add_RepairRequest db r2)" h' h] d(2) id'
    by (simp add: db' get_HelpRequest_add_RepairRequest)
  show "hr_resolution_note h' = or_None (strip (cl_resolution_note data))"
    and "hr_quality_manager_id h' = Some (u_id user)"
    and "hr_status h' = STATUS_CLOSED"
    and "hr_closed_at h' = Some now"
    by (simp_all add: h')
  have rid: "rr_id r2 = Some (hr_request_id h)"
    using get_RepairRequest_id[OF d(4)] by (simp add: r2_def r1_def split: option.splits)
  have g: "get_RepairRequest db' (hr_request_id h') = Some r2"
    using get_RepairRequest_add[OF rid d(4)]
    by (simp add: db' get_RepairRequest_update_HelpRequest id')
  have m: "rr_master_id r2 = Some m \<and> hr_assigned_master_id h' = Some m
           \<and> (\<exists>u role. get_User db m = Some u \<and> u_role u = Some role
                 \<and> is_master_role (ur_name role))"
    if "cl_assigned_master_id data = Some m" for m
  proof -
    from d(7)[OF that] obtain u role where u: "mu = Some u" "get_User db m = Some u"
      "u_role u = Some role" "is_master_role (ur_name role)" by blast
    with get_User_id[OF u(2)] show ?thesis
      by (simp add: r2_def r1_def h' h1_def split: option.splits)
  qed
  have dd: "rr_due_date r2 = Some d" if "cl_new_due_date data = Some d" for d
    using that by (simp add: r2_def)
  from g m dd show "\<exists>r'. get_RepairRequest db' (hr_request_id h') = Some r'
           \<and> (\<forall>m. cl_assigned_master_id data = Some m \<longrightarrow>
                  rr_master_id r' = Some m \<and> hr_assigned_master_id h' = Some m
                  \<and> (\<exists>u role. get_User db m = Some u \<and> u_role u = Some role
                        \<and> is_master_role (ur_name role)))
           \<and> (\<forall>d. cl_new_due_date data = Some d \<longrightarrow> rr_due_date r' = Some d)"
    by blast
qed

lemma close_help_request_failure_frame:
  "fst (close_help_request now db user data) = Inl e \<Longrightarrow>
   snd (close_help_request now db user data) = db"
  by (cases "close_checks db user data")
    (auto simp: close_help_request_def Let_def split: prod.splits option.splits)

lemma close_help_request_bad_master:
  assumes "user_can_handle_help_request user"
    and "get_HelpRequest db (cl_help_id data) = Some h"
    and "hr_status h = STATUS_OPEN"
    and "get_RepairRequest db (hr_request_id h) = Some r"
    and "\<forall>d. cl_new_due_date data = Some d \<longrightarrow> rr_start_date r \<le> d"
    and "cl_assigned_master_id data = Some m"
    and "get_User db m = None \<or>
         (\<exists>u role. get_User db m = Some u \<and> u_role u = Some role \<and>
                  \<not> is_master_role (ur_name role))"
  shows "close_help_request now db user data = (Inl BusinessRuleViolationError, db)"
proof -
  from assms have "close_checks db user data = Inl BusinessRuleViolationError"
    by (auto simp: close_checks_def split: option.splits)
  then show ?thesis by (simp add: close_help_request_def)
qed

lemma close_help_request_closed:
  assumes "get_HelpRequest db (cl_help_id data) = Some h" and "hr_status h \<noteq> STATUS_OPEN"
  shows "\<exists>e. close_help_request now db user data = (Inl e, db)"
    and "user_can_handle_help_request user \<Longrightarrow>
         close_help_request now db user data = (Inl BusinessRuleViolationError, db)"
  using assms by (auto simp: close_help_request_def close_checks_def)

lemma close_help_request_early_due_date:
  assumes "user_can_handle_help_request user"
    and "get_HelpRequest db (cl_help_id data) = Some h"
    and "hr_status h = STATUS_OPEN"
    and "get_RepairRequest db (hr_request_id h) = Some r"
    and "cl_new_due_date data = Some d" and "d < rr_start_date r"
  shows "close_help_request now db user data = (Inl BusinessRuleViolationError, db)"
  using assms by (auto simp: close_help_request_def close_checks_def)

section \<open>Facts about saving a request\<close>

lemma save_request_InrD:
  assumes "save_request today db user data = (Inr r, db')"
  obtains em it db1 req st req' where
    "resolve_equipment_and_issue db data = ((em, it), db1)"
    "load_or_new db1 user data = Inr (req, st)"
    "assign_fields today user data em it req st = Inr req'"
    "add_RepairRequest db1 req' = (r, db')"
proof -
  obtain em it db1 where 1: "resolve_equipment_and_issue db data = ((em, it), db1)"
    by (cases "resolve_equipment_and_issue db data") auto
  show ?thesis
  proof (cases "load_or_new db1 user data")
    case (Inl e)
    with assms 1 show ?thesis by (simp add: save_request_def)
  next
    case (Inr x)
    obtain req st where x: "x = (req, st)" by (cases x) auto
    show ?thesis
    proof (cases "assign_fields today user data em it req st")
      case (Inl e)
      with assms 1 Inr x show ?thesis by (simp add: save_request_def)
    next
      case inr: (Inr req')
      with assms 1 Inr x have "add_RepairRequest db1 req' = (r, db')"
        by (simp add: save_request_def split: prod.splits)
      with 1 Inr x inr that show ?thesis by blast
    qed
  qed
qed

lemma save_request_InlD:
  assumes "save_request today db user data = (Inl e, db')"
  shows "db' = snd (resolve_equipment_and_issue db data)"
  using assms
  by (auto simp: save_request_def split: prod.splits sum.splits)

lemma apply_client_InrD:
  assumes "apply_client user req data = Inr req'"
  shows "\<exists>c. req' = req\<lparr>rr_client_id := c\<rparr>"
  using assms
  by (auto simp: apply_client_def Let_def split: if_splits intro: exI[of _ "rr_client_id req"])

lemma apply_completion_date_fields [simp]:
  "rr_id (apply_completion_date today req st data) = rr_id req"
  "rr_status (apply_completion_date today req st data) = rr_status req"
  "rr_status_id (apply_completion_date today req st data) = rr_status_id req"
  "rr_client_id (apply_completion_date today req st data) = rr_client_id req"
  "rr_completion_date (apply_completion_date today req st data) =
     (if rs_is_final st
      then Some (case ri_completion_date data of None \<Rightarrow> today | Some d \<Rightarrow> d)
      else ri_completion_date data)"
  by (simp_all add: apply_completion_date_def split: option.splits)

lemma apply_due_date_fields [simp]:
  "rr_id (apply_due_date user req data) = rr_id req"
  "rr_status (apply_due_date user req data) = rr_status req"
  "rr_status_id (apply_due_date user req data) = rr_status_id req"
  "rr_client_id (apply_due_date user req data) = rr_client_id req"
  "rr_completion_date (apply_due_date user req data) = rr_completion_date req"
  by (simp_all add: apply_due_date_def Let_def)

lemma apply_repair_parts_fields [simp]:
  "rr_id (apply_repair_parts user req data) = rr_id req"
  "rr_status (apply_repair_parts user req data) = rr_status req"
  "rr_status_id (apply_repair_parts user req data) = rr_status_id req"
  "rr_client_id (apply_repair_parts user req data) = rr_client_id req"
  "rr_completion_date (apply_repair_parts user req data) = rr_completion_date req"
  by (simp_all add: apply_repair_parts_def Let_def)

lemma apply_master_fields [simp]:
  "rr_id (apply_master user req data) = rr_id req"
  "rr_status (apply_master user req data) = rr_status req"
  "rr_status_id (apply_master user req data) = rr_status_id req"
  "rr_client_id (apply_master user req data) = rr_client_id req"
  "rr_completion_date (apply_master user req data) = rr_completion_date req"
  by (simp_all add: apply_master_def)

lemma apply_client_fields:
  assumes "apply_client user req data = Inr req'"
  shows "rr_id req' = rr_id req" "rr_status req' = rr_status req"
    "rr_status_id req' = rr_status_id req" "rr_completion_date req' = rr_completion_date req"
  using apply_client_InrD[OF assms] by auto

text \<open>The client after \<^verbatim>\<open>_apply_client\<close>, by role.\<close>

lemma apply_client_client:
  assumes "apply_client user req data = Inr req'"
  shows "rr_client_id req' =
           (if role_name (Some user) = ROLE_CLIENT then Some (u_id user)
            else if role_name (Some user) \<in> {ROLE_MANAGER, ROLE_OPERATOR}
            then ri_client_id data
            else rr_client_id req)"
    and "role_name (Some user) \<in> {ROLE_MANAGER, ROLE_OPERATOR} \<Longrightarrow> truthy (ri_client_id data)"
    and "role_name (Some user) \<notin> {ROLE_CLIENT, ROLE_MANAGER, ROLE_OPERATOR} \<Longrightarrow>
         rr_id req \<noteq> None"
  using assms by (auto simp: apply_client_def Let_def split: if_splits)

lemma assign_fields_InrD:
  assumes "assign_fields today user data em it req st = Inr req'"
  shows "rr_id req' = rr_id req"
    and "rr_status req' = st"
    and "rr_status_id req' = rs_id st"
    and "rr_completion_date req' =
           (if rs_is_final st
            then Some (case ri_completion_date data of None \<Rightarrow> today | Some d \<Rightarrow> d)
            else ri_completion_date data)"
    and "rr_client_id req' =
           (if role_name (Some user) = ROLE_CLIENT then Some (u_id user)
            else if role_name (Some user) \<in> {ROLE_MANAGER, ROLE_OPERATOR}
            then ri_client_id data
            else rr_client_id req)"
proof -
  define req5 where "req5 =
     apply_master user (apply_repair_parts user (apply_due_date user
       (apply_completion_date today
          (req\<lparr>rr_start_date := ri_start_date data,
               rr_equipment_model_id := em_id em,
               rr_issue_type_id := it_id it,
               rr_problem_description := ri_problem_description data,
               rr_status_id := rs_id st,
               rr_status := st\<rparr>) st data) data) data) data"
  from assms have c: "apply_client user req5 data = Inr req'"
    by (simp add: assign_fields_def Let_def req5_def)
  have 5: "rr_id req5 = rr_id req" "rr_status req5 = st" "rr_status_id req5 = rs_id st"
    "rr_client_id req5 = rr_client_id req"
    "rr_completion_date req5 =
           (if rs_is_final st
            then Some (case ri_completion_date data of None \<Rightarrow> today | Some d \<Rightarrow> d)
            else ri_completion_date data)"
    unfolding req5_def by simp_all
  from apply_client_fields[OF c] 5
  show "rr_id req' = rr_id req" "rr_status req' = st" "rr_status_id req' = rs_id st"
    "rr_completion_date req' =
           (if rs_is_final st
            then Some (case ri_completion_date data of None \<Rightarrow> today | Some d \<Rightarrow> d)
            else ri_completion_date data)"
    by simp_all
  from apply_client_client(1)[OF c] 5(4)
  show "rr_client_id req' =
           (if role_name (Some user) = ROLE_CLIENT then Some (u_id user)
            else if role_name (Some user) \<in> {ROLE_MANAGER, ROLE_OPERATOR}
            then ri_client_id data
            else rr_client_id req)"
    by simp
qed

lemma add_RepairRequest_fields:
  assumes "add_RepairRequest db req = (r, db')"
  shows "\<exists>k. r = req\<lparr>rr_id := Some k\<rparr>"
proof (cases "rr_id req")
  case None
  with assms show ?thesis by (auto simp: add_RepairRequest_def Let_def)
next
  case (Some k)
  with assms have "r = req" by (auto simp: add_RepairRequest_def)
  with Some have "r = req\<lparr>rr_id := Some k\<rparr>" by simp
  then show ?thesis ..
qed

lemma add_RepairRequest_result:
  assumes "add_RepairRequest db req = (r, db')"
  shows "rr_id r \<noteq> None"
    and "rr_id req = None \<Longrightarrow> repair_requests db' = repair_requests db @ [r]"
    and "rr_id req = Some k \<Longrightarrow> r = req \<and>
           repair_requests db' = map (\<lambda>x. if rr_id x = Some k then r else x) (repair_requests db)"
  using assms
  by (auto simp: add_RepairRequest_def Let_def split: option.splits)

lemma load_or_new_InrD:
  assumes "load_or_new db user data = Inr (req, st)"
  shows "ri_id data = None \<Longrightarrow> req = RepairRequest_new \<and> user_can_create_request user
            \<and> resolve_new_status_for_create db user data = Inr st"
    and "ri_id data = Some k \<Longrightarrow> get_RepairRequest db k = Some req
            \<and> user_can_edit_request user req
            \<and> resolve_new_status_for_update db user req data = Inr st"
  using assms
  by (auto simp: load_or_new_def split: option.splits if_splits sum.splits)

lemma get_RepairRequest_cong:
  "repair_requests db' = repair_requests db \<Longrightarrow> get_RepairRequest db' k = get_RepairRequest db k"
  by (simp add: get_RepairRequest_def)

lemma get_new_request_status_cong:
  "request_statuses db' = request_statuses db \<Longrightarrow>
   get_new_request_status db' = get_new_request_status db"
  by (simp add: get_new_request_status_def cong: option.case_cong)

lemma save_request_stored:
  assumes "save_request today db user data = (Inr r, db')"
  shows "r \<in> set (repair_requests db')"
proof -
  from assms obtain em it db1 req st req' where
    1: "resolve_equipment_and_issue db data = ((em, it), db1)"
    and 2: "load_or_new db1 user data = Inr (req, st)"
    and 3: "assign_fields today user data em it req st = Inr req'"
    and 4: "add_RepairRequest db1 req' = (r, db')"
    by (rule save_request_InrD)
  show ?thesis
  proof (cases "ri_id data")
    case None
    with load_or_new_InrD(1)[OF 2] have "rr_id req = None" by (simp add: RepairRequest_new_def)
    with assign_fields_InrD(1)[OF 3] add_RepairRequest_result(2)[OF 4] show ?thesis by simp
  next
    case (Some k)
    with load_or_new_InrD(2)[OF 2] have g: "get_RepairRequest db1 k = Some req" by simp
    then have id: "rr_id req = Some k" and mem: "req \<in> set (repair_requests db1)"
      by (auto simp: get_RepairRequest_def dest: find_Some_D)
    with assign_fields_InrD(1)[OF 3] add_RepairRequest_result(3)[OF 4, of k]
    have "repair_requests db' = map (\<lambda>x. if rr_id x = Some k then r else x) (repair_requests db1)"
      by simp
    with mem id show ?thesis by force
  qed
qed

section \<open>Facts about the completion date\<close>

lemma completion_cong:
  "repair_requests db' = repair_requests db \<Longrightarrow>
   completion_set_when_final db' = completion_set_when_final db"
  by (simp add: completion_set_when_final_def)

lemma list_all_replace:
  "list_all P xs \<Longrightarrow> P y \<Longrightarrow> list_all P (map (\<lambda>x. if Q x then y else x) xs)"
  by (induction xs) auto

lemma save_request_saved_completion:
  assumes "save_request today db user data = (Inr r, db')"
  shows "rr_completion_date r =
           (if rs_is_final (rr_status r)
            then Some (case ri_completion_date data of None \<Rightarrow> today | Some d \<Rightarrow> d)
            else ri_completion_date data)"
    and "rr_status_id r = rs_id (rr_status r)"
    and "\<exists>req. load_or_new (snd (resolve_equipment_and_issue db data)) user data
                 = Inr (req, rr_status r)"
proof -
  from assms obtain em it db1 req st req' where
    1: "resolve_equipment_and_issue db data = ((em, it), db1)"
    and 2: "load_or_new db1 user data = Inr (req, st)"
    and 3: "assign_fields today user data em it req st = Inr req'"
    and 4: "add_RepairRequest db1 req' = (r, db')"
    by (rule save_request_InrD)
  from add_RepairRequest_fields[OF 4] obtain k where r: "r = req'\<lparr>rr_id := Some k\<rparr>" ..
  note f = assign_fields_InrD[OF 3]
  show "rr_completion_date r =
           (if rs_is_final (rr_status r)
            then Some (case ri_completion_date data of None \<Rightarrow> today | Some d \<Rightarrow> d)
            else ri_completion_date data)"
    using f(2,4) by (simp add: r)
  show "rr_status_id r = rs_id (rr_status r)" using f(2,3) by (simp add: r)
  show "\<exists>req. load_or_new (snd (resolve_equipment_and_issue db data)) user data
                 = Inr (req, rr_status r)"
    using 1 2 f(2) by (auto simp: r)
qed

lemma resolve_equipment_and_issue_requests:
  "repair_requests (snd (resolve_equipment_and_issue db data)) = repair_requests db"
proof -
  obtain mt db1 where 1: "resolve_equipment_and_issue db data = (mt, db1)"
    by (cases "resolve_equipment_and_issue db data")
  from resolve_equipment_and_issue_frame[OF 1] show ?thesis by (simp add: 1)
qed

lemma save_request_completion:
  assumes inv: "completion_set_when_final db"
  shows "completion_set_when_final (snd (save_request today db user data))"
proof -
  obtain out db' where res: "save_request today db user data = (out, db')"
    by (cases "save_request today db user data")
  show ?thesis
  proof (cases out)
    case (Inl e)
    from save_request_InlD[OF res[unfolded Inl]]
    have "repair_requests db' = repair_requests db"
      by (simp add: resolve_equipment_and_issue_requests)
    from completion_cong[OF this] inv res show ?thesis by simp
  next
    case (Inr r)
    note ok = res[unfolded Inr]
    from ok obtain em it db1 req st req' where
      1: "resolve_equipment_and_issue db data = ((em, it), db1)"
      and 4: "add_RepairRequest db1 req' = (r, db')"
      by (rule save_request_InrD)
    have rr: "repair_requests db1 = repair_requests db"
      using resolve_equipment_and_issue_requests[of db data] by (simp add: 1)
    have Pr: "\<not> rs_is_final (rr_status r) \<or> rr_completion_date r \<noteq> None"
    proof (cases "rs_is_final (rr_status r)")
      case True
      with save_request_saved_completion(1)[OF ok] show ?thesis by simp
    next
      case False
      then show ?thesis by simp
    qed
    have "list_all (\<lambda>r. \<not> rs_is_final (rr_status r) \<or> rr_completion_date r \<noteq> None)
            (repair_requests db')"
    proof (cases "rr_id req'")
      case None
      from add_RepairRequest_result(2)[OF 4 None]
      have "repair_requests db' = repair_requests db @ [r]" by (simp add: rr)
      with inv Pr show ?thesis
        unfolding completion_set_when_final_def by simp
    next
      case (Some k)
      from add_RepairRequest_result(3)[OF 4 Some]
      have "repair_requests db' =
              map (\<lambda>x. if rr_id x = Some k then r else x) (repair_requests db)"
        by (simp add: rr)
      with inv Pr show ?thesis
        unfolding completion_set_when_final_def by (simp only: list_all_replace)
    qed
    with res show ?thesis by (simp add: completion_set_when_final_def)
  qed
qed

lemma delete_request_completion:
  "completion_set_when_final db \<Longrightarrow> completion_set_when_final (snd (delete_request db user k))"
  by (auto simp: delete_request_def completion_set_when_final_def list_all_iff
      split: option.splits)

lemma add_comment_completion:
  "completion_set_when_final db \<Longrightarrow>
   completion_set_when_final (snd (add_comment db user k msg))"
  by (auto simp: add_comment_def completion_set_when_final_def Let_def split: option.splits)

lemma create_help_request_completion:
  "completion_set_when_final db \<Longrightarrow>
   completion_set_when_final (snd (create_help_request db user data))"
  by (auto simp: create_help_request_def completion_set_when_final_def Let_def
      split: option.splits)

lemma close_help_request_completion:
  assumes inv: "completion_set_when_final db"
  shows "completion_set_when_final (snd (close_help_request now db user data))"
proof (cases "close_checks db user data")
  case (Inl e)
  with inv show ?thesis by (simp add: close_help_request_def)
next
  case (Inr x)
  obtain h r mu where x: "x = (h, r, mu)" by (cases x) auto
  note cc = Inr[unfolded x]
  from close_checks_InrD(4)[OF cc] have g: "get_RepairRequest db (hr_request_id h) = Some r" .
  then have mem: "r \<in> set (repair_requests db)" and id: "rr_id r = Some (hr_request_id h)"
    by (auto simp: get_RepairRequest_def dest: find_Some_D)
  define r2 where "r2 = (case cl_new_due_date data of
       None \<Rightarrow> (case mu of None \<Rightarrow> r | Some u \<Rightarrow> r\<lparr>rr_master_id := Some (u_id u)\<rparr>)
     | Some d \<Rightarrow> (case mu of None \<Rightarrow> r | Some u \<Rightarrow> r\<lparr>rr_master_id := Some (u_id u)\<rparr>)
                  \<lparr>rr_due_date := Some d\<rparr>)"
  have r2: "rr_id r2 = Some (hr_request_id h)" "rr_status r2 = rr_status r"
    "rr_completion_date r2 = rr_completion_date r"
    using id by (simp_all add: r2_def split: option.splits)
  from close_help_request_Inr[OF cc, of now]
  have "repair_requests (snd (close_help_request now db user data))
          = repair_requests (snd (add_RepairRequest db r2))"
    unfolding r2_def by (simp add: update_HelpRequest_def)
  also have "\<dots> = map (\<lambda>x. if rr_id x = Some (hr_request_id h) then r2 else x)
                     (repair_requests db)"
    using r2(1) by (simp add: add_RepairRequest_def)
  finally have eq: "repair_requests (snd (close_help_request now db user data))
     = map (\<lambda>x. if rr_id x = Some (hr_request_id h) then r2 else x) (repair_requests db)" .
  from inv mem have "\<not> rs_is_final (rr_status r2) \<or> rr_completion_date r2 \<noteq> None"
    by (auto simp: completion_set_when_final_def list_all_iff r2)
  with inv show ?thesis
    unfolding completion_set_when_final_def eq by (intro list_all_replace)
qed

lemma handle_completion:
  "completion_set_when_final db \<Longrightarrow> completion_set_when_final (handle db c)"
  by (cases c)
    (simp_all add: commit_or_rollback_cases save_request_completion add_comment_completion
      delete_request_completion close_help_request_completion create_help_request_completion)

lemma run_completion:
  "completion_set_when_final db \<Longrightarrow> completion_set_when_final (run db calls)"
  unfolding run_def by (induction calls arbitrary: db) (simp_all add: handle_completion)

section \<open>Facts about the client of a saved request\<close>

lemma save_request_create_denied:
  assumes "ri_id data = None" and "\<not> user_can_create_request user"
  shows "save_request today db user data =
           (Inl PermissionDeniedError, snd (resolve_equipment_and_issue db data))"
  using assms
  by (cases "resolve_equipment_and_issue db data")
    (auto simp: save_request_def load_or_new_def)

lemma assign_fields_new_other_role:
  assumes "role_name (Some user) \<notin> {ROLE_CLIENT, ROLE_MANAGER, ROLE_OPERATOR}"
  shows "assign_fields today user data em it RepairRequest_new st = Inl BusinessRuleViolationError"
proof -
  define req5 where "req5 =
     apply_master user (apply_repair_parts user (apply_due_date user
       (apply_completion_date today
          (RepairRequest_new\<lparr>rr_start_date := ri_start_date data,
               rr_equipment_model_id := em_id em,
               rr_issue_type_id := it_id it,
               rr_problem_description := ri_problem_description data,
               rr_status_id := rs_id st,
               rr_status := st\<rparr>) st data) data) data) data"
  have "rr_id req5 = None" unfolding req5_def by (simp add: RepairRequest_new_def)
  with assms have "apply_client user req5 data = Inl BusinessRuleViolationError"
    by (auto simp: apply_client_def Let_def)
  then show ?thesis by (simp add: assign_fields_def Let_def req5_def)
qed

lemma save_request_create_quality_manager:
  assumes "ri_id data = None" and "role_name (Some user) = ROLE_QUALITY_MANAGER"
  shows "save_request today db user data =
           (Inl BusinessRuleViolationError, snd (resolve_equipment_and_issue db data))"
proof -
  obtain em it db1 where 1: "resolve_equipment_and_issue db data = ((em, it), db1)"
    by (cases "resolve_equipment_and_issue db data") auto
  from assms(2) have other: "role_name (Some user) \<notin> {ROLE_CLIENT, ROLE_MANAGER, ROLE_OPERATOR}"
    by simp
  from assms have "load_or_new db1 user data = Inl BusinessRuleViolationError
      \<or> (\<exists>st. load_or_new db1 user data = Inr (RepairRequest_new, st))"
    by (auto simp: load_or_new_def user_can_create_request_def
        resolve_new_status_for_create_def Let_def split: option.splits)
  then show ?thesis
    using assign_fields_new_other_role[OF other]
    by (auto simp: save_request_def 1)
qed

lemma save_request_update_client:
  assumes ok: "save_request today db user data = (Inr r, db')"
    and k: "ri_id data = Some k"
  shows "\<exists>old. get_RepairRequest db k = Some old \<and> user_can_edit_request user old
           \<and> rr_client_id r =
              (if role_name (Some user) = ROLE_CLIENT then Some (u_id user)
               else if role_name (Some user) \<in> {ROLE_MANAGER, ROLE_OPERATOR}
               then ri_client_id data
               else rr_client_id old)"
proof -
  from ok obtain em it db1 req st req' where
    1: "resolve_equipment_and_issue db data = ((em, it), db1)"
    and 2: "load_or_new db1 user data = Inr (req, st)"
    and 3: "assign_fields today user data em it req st = Inr req'"
    and 4: "add_RepairRequest db1 req' = (r, db')"
    by (rule save_request_InrD)
  from resolve_equipment_and_issue_frame[OF 1]
  have "get_RepairRequest db1 k = get_RepairRequest db k" by (simp add: get_RepairRequest_def)
  with load_or_new_InrD(2)[OF 2 k]
  have g: "get_RepairRequest db k = Some req" "user_can_edit_request user req" by simp_all
  from add_RepairRequest_fields[OF 4] obtain j where "r = req'\<lparr>rr_id := Some j\<rparr>" ..
  then have "rr_client_id r = rr_client_id req'" by simp
  with assign_fields_InrD(5)[OF 3] g show ?thesis by simp
qed

section \<open>Facts about the status of a new request\<close>

lemma sort_key_hd:
  assumes "sort_key f xs = y # ys"
  shows "y \<in> set xs" and "\<forall>x\<in>set xs. f y \<le> f x"
proof -
  have s: "set (sort_key f xs) = set xs" by simp
  with assms show "y \<in> set xs" by auto
  have "sorted (map f (sort_key f xs))" by (rule sorted_sort_key)
  with assms have "\<forall>z\<in>set ys. f y \<le> f z" by simp
  with s assms show "\<forall>x\<in>set xs. f y \<le> f x" by auto
qed

lemma get_new_request_status_named:
  "find (\<lambda>s. rs_name s = NEW_REQUEST_NAME) (request_statuses db) = Some s \<Longrightarrow>
   get_new_request_status db = Inr s"
  by (simp add: get_new_request_status_def)

lemma get_new_request_status_Inr:
  assumes "get_new_request_status db = Inr s"
  shows "s \<in> set (request_statuses db)"
    and "rs_name s = NEW_REQUEST_NAME \<or>
         ((\<forall>t\<in>set (request_statuses db). rs_name t \<noteq> NEW_REQUEST_NAME)
          \<and> \<not> rs_is_final s
          \<and> (\<forall>t\<in>set (request_statuses db). \<not> rs_is_final t \<longrightarrow> rs_id s \<le> rs_id t))"
proof -
  show "s \<in> set (request_statuses db)"
  proof (cases "find (\<lambda>s. rs_name s = NEW_REQUEST_NAME) (request_statuses db)")
    case None
    with assms obtain ys where
      "sort_key rs_id (filter (\<lambda>s. \<not> rs_is_final s) (request_statuses db)) = s # ys"
      by (auto simp: get_new_request_status_def split: list.splits)
    from sort_key_hd(1)[OF this] show ?thesis by simp
  next
    case (Some t)
    with assms have "t = s" by (simp add: get_new_request_status_def)
    with Some show ?thesis by (auto dest: find_Some_D)
  qed
  show "rs_name s = NEW_REQUEST_NAME \<or>
         ((\<forall>t\<in>set (request_statuses db). rs_name t \<noteq> NEW_REQUEST_NAME)
          \<and> \<not> rs_is_final s
          \<and> (\<forall>t\<in>set (request_statuses db). \<not> rs_is_final t \<longrightarrow> rs_id s \<le> rs_id t))"
  proof (cases "find (\<lambda>s. rs_name s = NEW_REQUEST_NAME) (request_statuses db)")
    case None
    with assms obtain ys where
      k: "sort_key rs_id (filter (\<lambda>s. \<not> rs_is_final s) (request_statuses db)) = s # ys"
      by (auto simp: get_new_request_status_def split: list.splits)
    from None have "\<forall>t\<in>set (request_statuses db). rs_name t \<noteq> NEW_REQUEST_NAME"
      by (simp add: find_None_iff')
    with sort_key_hd[OF k] show ?thesis by auto
  next
    case (Some t)
    with assms have "t = s" by (simp add: get_new_request_status_def)
    with Some show ?thesis by (auto dest: find_Some_D)
  qed
qed

lemma sort_key_Nil_iff: "sort_key f xs = [] \<longleftrightarrow> xs = []"
proof
  assume "sort_key f xs = []"
  then have "length (sort_key f xs) = 0" by simp
  then show "xs = []" by (simp only: length_sort length_0_conv)
qed simp

lemma get_new_request_status_Inl:
  "(\<exists>e. get_new_request_status db = Inl e) \<longleftrightarrow>
   (\<forall>t\<in>set (request_statuses db). rs_name t \<noteq> NEW_REQUEST_NAME \<and> rs_is_final t)"
proof (cases "find (\<lambda>s. rs_name s = NEW_REQUEST_NAME) (request_statuses db)")
  case (Some s)
  then have "get_new_request_status db = Inr s" by (rule get_new_request_status_named)
  moreover from Some have "s \<in> set (request_statuses db)" "rs_name s = NEW_REQUEST_NAME"
    by (auto dest: find_Some_D)
  ultimately show ?thesis by auto
next
  case None
  then have nn: "\<forall>t\<in>set (request_statuses db). rs_name t \<noteq> NEW_REQUEST_NAME"
    by (simp add: find_None_iff')
  show ?thesis
  proof (cases "sort_key rs_id (filter (\<lambda>s. \<not> rs_is_final s) (request_statuses db))")
    case Nil
    then have "filter (\<lambda>s. \<not> rs_is_final s) (request_statuses db) = []"
      by (simp only: sort_key_Nil_iff)
    then have "\<forall>t\<in>set (request_statuses db). rs_is_final t"
      by (simp add: filter_empty_conv)
    moreover from None Nil have "get_new_request_status db = Inl RuntimeError"
      by (simp add: get_new_request_status_def)
    ultimately show ?thesis using nn by auto
  next
    case (Cons s ys)
    with None have r: "get_new_request_status db = Inr s"
      by (simp add: get_new_request_status_def)
    from sort_key_hd(1)[OF Cons] have "s \<in> set (request_statuses db)" "\<not> rs_is_final s"
      by simp_all
    with r show ?thesis by auto
  qed
qed

lemma get_new_request_status_error:
  "get_new_request_status db = Inl e \<Longrightarrow> e = RuntimeError"
  by (auto simp: get_new_request_status_def split: option.splits list.splits)

lemma save_request_client_create:
  assumes c: "role_name (Some user) = ROLE_CLIENT" and n: "ri_id data = None"
  shows "save_request today db user data = (Inr r, db') \<Longrightarrow>
           get_new_request_status db = Inr (rr_status r)"
    and "\<forall>t\<in>set (request_statuses db). rs_name t \<noteq> NEW_REQUEST_NAME \<and> rs_is_final t \<Longrightarrow>
           save_request today db user data =
             (Inl RuntimeError, snd (resolve_equipment_and_issue db data))"
proof -
  obtain em it db1 where 1: "resolve_equipment_and_issue db data = ((em, it), db1)"
    by (cases "resolve_equipment_and_issue db data") auto
  from resolve_equipment_and_issue_frame[OF 1]
  have "request_statuses db1 = request_statuses db" by simp
  then have st: "get_new_request_status db1 = get_new_request_status db"
    by (rule get_new_request_status_cong)
  have can: "user_can_create_request user" using c by (simp add: user_can_create_request_def)
  have l: "load_or_new db1 user data =
            (case get_new_request_status db of Inl e \<Rightarrow> Inl e
             | Inr s \<Rightarrow> Inr (RepairRequest_new, s))"
    using c n can st by (simp add: load_or_new_def resolve_new_status_for_create_def)
  show "get_new_request_status db = Inr (rr_status r)"
    if ok: "save_request today db user data = (Inr r, db')"
  proof -
    from ok obtain em' it' db2 req s req' where
      r1: "resolve_equipment_and_issue db data = ((em', it'), db2)"
      and 2: "load_or_new db2 user data = Inr (req, s)"
      and 3: "assign_fields today user data em' it' req s = Inr req'"
      and 4: "add_RepairRequest db2 req' = (r, db')"
      by (rule save_request_InrD)
    from 1 r1 have "db2 = db1" by simp
    with 2 l have "get_new_request_status db = Inr s" by (auto split: sum.splits)
    moreover from add_RepairRequest_fields[OF 4] assign_fields_InrD(2)[OF 3]
    have "rr_status r = s" by auto
    ultimately show ?thesis by simp
  qed
  show "save_request today db user data =
             (Inl RuntimeError, snd (resolve_equipment_and_issue db data))"
    if a: "\<forall>t\<in>set (request_statuses db). rs_name t \<noteq> NEW_REQUEST_NAME \<and> rs_is_final t"
  proof -
    from a obtain e where e: "get_new_request_status db = Inl e"
      using get_new_request_status_Inl[of db] by blast
    with get_new_request_status_error[OF e] l
    have "load_or_new db1 user data = Inl RuntimeError" by simp
    then show ?thesis by (simp add: save_request_def 1)
  qed
qed

lemma resolve_equipment_and_issue_status_id:
  "resolve_equipment_and_issue db (data\<lparr>ri_status_id := sid\<rparr>) =
     resolve_equipment_and_issue db data"
  by (simp add: resolve_equipment_and_issue_def cong: if_cong option.case_cong)

lemma assign_fields_status_id:
  "assign_fields today user (data\<lparr>ri_status_id := sid\<rparr>) em it req st =
     assign_fields today user data em it req st"
  by (simp add: assign_fields_def apply_completion_date_def
      apply_due_date_def apply_repair_parts_def apply_master_def apply_client_def Let_def
      cong: if_cong)

lemma save_request_client_create_status_id:
  assumes "role_name (Some user) = ROLE_CLIENT" and "ri_id data = None"
  shows "save_request today db user (data\<lparr>ri_status_id := sid\<rparr>) =
           save_request today db user data"
proof -
  have "load_or_new db1 user (data\<lparr>ri_status_id := sid\<rparr>) = load_or_new db1 user data"
    for db1
    using assms by (simp add: load_or_new_def resolve_new_status_for_create_def)
  then show ?thesis
    unfolding save_request_def resolve_equipment_and_issue_status_id assign_fields_status_id
    by simp
qed

section \<open>The use cases on the sample data\<close>

lemma sample_resolve:
  "resolve_equipment_and_issue sample_db sample_input =
     ((\<lparr>em_id = 1, em_equipment_type_id = 1, em_name = [77]\<rparr>, \<lparr>it_id = 1, it_name = [120]\<rparr>),
      sample_db)"
  by (simp add: resolve_equipment_and_issue_def get_or_create_equipment_model_def
      get_IssueType_def truthy_def strip_def lstrip_def rstrip_def isspace_def
      sample_db_def sample_input_def Let_def)

lemma sample_save_result:
  "save_request 200 sample_db (sample_user 1 ROLE_MANAGER) sample_input =
     (Inr \<lparr>rr_id = Some 11, rr_start_date = 100, rr_equipment_model_id = 1,
           rr_issue_type_id = 1, rr_problem_description = [120], rr_status_id = 3,
           rr_status = status_done, rr_completion_date = Some 200, rr_due_date = Some 130,
           rr_repair_parts = Some [112], rr_master_id = Some 2, rr_client_id = Some 7\<rparr>,
      sample_db\<lparr>repair_requests :=
        [sample_request,
         \<lparr>rr_id = Some 11, rr_start_date = 100, rr_equipment_model_id = 1,
           rr_issue_type_id = 1, rr_problem_description = [120], rr_status_id = 3,
           rr_status = status_done, rr_completion_date = Some 200, rr_due_date = Some 130,
           rr_repair_parts = Some [112], rr_master_id = Some 2, rr_client_id = Some 7\<rparr>]\<rparr>)"
  unfolding save_request_def sample_resolve
  by (simp add: load_or_new_def user_can_create_request_def resolve_new_status_for_create_def
      get_RequestStatus_def assign_fields_def apply_completion_date_def apply_due_date_def
      apply_repair_parts_def apply_master_def apply_client_def user_can_assign_master_def
      add_RepairRequest_def RepairRequest_new_def next_id_def truthy_def or_empty_def
      or_None_def strip_def lstrip_def rstrip_def isspace_def List.map_filter_def
      sample_defs sample_input_def Let_def)

lemma sample_resolve_update:
  "resolve_equipment_and_issue sample_db
     (sample_input\<lparr>ri_id := Some 10, ri_status_id := Some 2, ri_client_id := Some 99\<rparr>) =
     ((\<lparr>em_id = 1, em_equipment_type_id = 1, em_name = [77]\<rparr>, \<lparr>it_id = 1, it_name = [120]\<rparr>),
      sample_db)"
  by (simp add: resolve_equipment_and_issue_def get_or_create_equipment_model_def
      get_IssueType_def truthy_def strip_def lstrip_def rstrip_def isspace_def
      sample_db_def sample_input_def Let_def)

lemma sample_update_result:
  "\<exists>r db'.
     save_request 200 sample_db (sample_user 5 ROLE_QUALITY_MANAGER)
       (sample_input\<lparr>ri_id := Some 10, ri_status_id := Some 2, ri_client_id := Some 99\<rparr>)
       = (Inr r, db')"
  unfolding save_request_def sample_resolve_update
  by (simp add: load_or_new_def user_can_edit_request_def resolve_new_status_for_update_def
      get_RepairRequest_def assign_fields_def apply_completion_date_def apply_due_date_def
      apply_repair_parts_def apply_master_def apply_client_def user_can_assign_master_def
      add_RepairRequest_def truthy_def sample_defs sample_input_def Let_def)

lemma sample_resolve_statuses:
  "resolve_equipment_and_issue (sample_db\<lparr>request_statuses := sts\<rparr>) sample_input =
     ((\<lparr>em_id = 1, em_equipment_type_id = 1, em_name = [77]\<rparr>, \<lparr>it_id = 1, it_name = [120]\<rparr>),
      sample_db\<lparr>request_statuses := sts\<rparr>)"
  by (simp add: resolve_equipment_and_issue_def get_or_create_equipment_model_def
      get_IssueType_def truthy_def strip_def lstrip_def rstrip_def isspace_def
      sample_db_def sample_input_def Let_def)

lemma sample_client_create:
  "\<exists>r db'. save_request 200 sample_db (sample_user 7 ROLE_CLIENT) sample_input = (Inr r, db')"
  unfolding save_request_def sample_resolve
  by (simp add: load_or_new_def user_can_create_request_def resolve_new_status_for_create_def
      get_new_request_status_def assign_fields_def apply_completion_date_def
      apply_due_date_def apply_repair_parts_def apply_master_def apply_client_def
      user_can_assign_master_def add_RepairRequest_def RepairRequest_new_def
      sample_defs sample_input_def Let_def)


section \<open>Facts about exchanging Master and Specialist\<close>

lemma swap_role_name_simps [simp]:
  "swap_role_name ROLE_MASTER = ROLE_SPECIALIST"
  "swap_role_name ROLE_SPECIALIST = ROLE_MASTER"
  "swap_role_name n = ROLE_MANAGER \<longleftrightarrow> n = ROLE_MANAGER"
  "swap_role_name n = ROLE_OPERATOR \<longleftrightarrow> n = ROLE_OPERATOR"
  "swap_role_name n = ROLE_CLIENT \<longleftrightarrow> n = ROLE_CLIENT"
  "swap_role_name n = ROLE_QUALITY_MANAGER \<longleftrightarrow> n = ROLE_QUALITY_MANAGER"
  "swap_role_name n = ROLE_MASTER \<longleftrightarrow> n = ROLE_SPECIALIST"
  "swap_role_name n = ROLE_SPECIALIST \<longleftrightarrow> n = ROLE_MASTER"
  "is_master_role (swap_role_name n) = is_master_role n"
  by (auto simp: swap_role_name_def is_master_role_def)

lemma swap_role_simps [simp]:
  "u_id (swap_role u) = u_id u"
  "role_name (Some (swap_role u)) = swap_role_name (role_name (Some u))"
  by (simp_all add: swap_role_def role_name_def swap_role_name_def split: option.splits)

lemma rbac_swap:
  "user_can_create_request (swap_role u) = user_can_create_request u"
  "user_can_view_request (swap_role u) req = user_can_view_request u req"
  "user_can_edit_request (swap_role u) req = user_can_edit_request u req"
  "user_can_delete_request (swap_role u) = user_can_delete_request u"
  "user_can_add_comment (swap_role u) req = user_can_add_comment u req"
  "user_can_assign_master (swap_role u) = user_can_assign_master u"
  "user_can_change_status (swap_role u) old new = user_can_change_status u old new"
  "user_can_manage_users (swap_role u) = user_can_manage_users u"
  "user_can_view_statistics (swap_role u) = user_can_view_statistics u"
  "user_can_view_quality_desk (swap_role u) = user_can_view_quality_desk u"
  "user_can_create_help_request (swap_role u) = user_can_create_help_request u"
  "user_can_handle_help_request (swap_role u) = user_can_handle_help_request u"
  by (simp_all add: user_can_create_request_def user_can_view_request_def
      user_can_edit_request_def user_can_delete_request_def user_can_add_comment_def
      user_can_assign_master_def user_can_change_status_def user_can_manage_users_def
      user_can_view_statistics_def user_can_view_quality_desk_def
      user_can_create_help_request_def user_can_handle_help_request_def Let_def)

lemma gates_swap:
  "resolve_new_status_for_create db (swap_role u) data = resolve_new_status_for_create db u data"
  "resolve_new_status_for_update db (swap_role u) req data =
     resolve_new_status_for_update db u req data"
  "apply_due_date (swap_role u) req data = apply_due_date u req data"
  "apply_repair_parts (swap_role u) req data = apply_repair_parts u req data"
  "apply_master (swap_role u) req data = apply_master u req data"
  "apply_client (swap_role u) req data = apply_client u req data"
  by (simp_all add: resolve_new_status_for_create_def resolve_new_status_for_update_def
      apply_due_date_def apply_repair_parts_def apply_master_def apply_client_def
      rbac_swap Let_def cong: if_cong option.case_cong)

lemma actor_swap:
  "save_request today db (swap_role u) data = save_request today db u data"
  "delete_request db (swap_role u) k = delete_request db u k"
  "add_comment db (swap_role u) k msg = add_comment db u k msg"
  "create_help_request db (swap_role u) hdata = create_help_request db u hdata"
  "close_help_request now db (swap_role u) cdata = close_help_request now db u cdata"
  by (simp_all add: save_request_def load_or_new_def assign_fields_def delete_request_def
      add_comment_def create_help_request_def close_help_request_def close_checks_def
      rbac_swap gates_swap Let_def
      cong: if_cong option.case_cong sum.case_cong prod.case_cong)


lemma swap_users_tables [simp]:
  "request_statuses (swap_users P db) = request_statuses db"
  "equipment_models (swap_users P db) = equipment_models db"
  "issue_types (swap_users P db) = issue_types db"
  "repair_requests (swap_users P db) = repair_requests db"
  "request_comments (swap_users P db) = request_comments db"
  "help_requests (swap_users P db) = help_requests db"
  "users (swap_users P db) = map (\<lambda>u. if P u then swap_role u else u) (users db)"
  by (simp_all add: swap_users_def)

lemma swap_users_update [simp]:
  "swap_users P (db\<lparr>equipment_models := ems\<rparr>) = (swap_users P db)\<lparr>equipment_models := ems\<rparr>"
  "swap_users P (db\<lparr>issue_types := its\<rparr>) = (swap_users P db)\<lparr>issue_types := its\<rparr>"
  "swap_users P (db\<lparr>repair_requests := rrs\<rparr>) = (swap_users P db)\<lparr>repair_requests := rrs\<rparr>"
  "swap_users P (db\<lparr>request_comments := rcs\<rparr>) = (swap_users P db)\<lparr>request_comments := rcs\<rparr>"
  "swap_users P (db\<lparr>help_requests := hrs\<rparr>) = (swap_users P db)\<lparr>help_requests := hrs\<rparr>"
  by (simp_all add: swap_users_def)

lemma swap_users_get [simp]:
  "get_RequestStatus (swap_users P db) k = get_RequestStatus db k"
  "get_IssueType (swap_users P db) k = get_IssueType db k"
  "get_RepairRequest (swap_users P db) k = get_RepairRequest db k"
  "get_HelpRequest (swap_users P db) k = get_HelpRequest db k"
  "get_new_request_status (swap_users P db) = get_new_request_status db"
  by (simp_all add: get_RequestStatus_def get_IssueType_def get_RepairRequest_def
      get_HelpRequest_def get_new_request_status_def cong: option.case_cong)

lemma swap_users_get_User:
  "get_User (swap_users P db) k =
     map_option (\<lambda>u. if P u then swap_role u else u) (get_User db k)"
  unfolding get_User_def swap_users_tables
  by (rule find_map_inv) simp

lemma swap_users_get_or_create:
  "get_or_create_equipment_model (swap_users P db) t n =
     apsnd (swap_users P) (get_or_create_equipment_model db t n)"
  "get_or_create_issue_type (swap_users P db) d =
     apsnd (swap_users P) (get_or_create_issue_type db d)"
  by (simp_all add: get_or_create_equipment_model_def get_or_create_issue_type_def Let_def
      split: option.splits)

lemma swap_users_resolve:
  "resolve_equipment_and_issue (swap_users P db) data =
     apsnd (swap_users P) (resolve_equipment_and_issue db data)"
proof -
  obtain m db1 where 1: "get_or_create_equipment_model db (ri_equipment_type_id data)
              (ri_equipment_model_name data) = (m, db1)"
    by (cases "get_or_create_equipment_model db (ri_equipment_type_id data)
              (ri_equipment_model_name data)")
  obtain t db2 where 2: "get_or_create_issue_type db1 (ri_problem_description data) = (t, db2)"
    by (cases "get_or_create_issue_type db1 (ri_problem_description data)")
  show ?thesis
    by (simp add: resolve_equipment_and_issue_def swap_users_get_or_create 1 2
        split: option.splits)
qed

lemma swap_users_load_or_new:
  "load_or_new (swap_users P db) u data = load_or_new db u data"
  by (simp add: load_or_new_def resolve_new_status_for_create_def
      resolve_new_status_for_update_def Let_def
      cong: if_cong option.case_cong sum.case_cong)

lemma swap_users_add_RepairRequest:
  "add_RepairRequest (swap_users P db) r = apsnd (swap_users P) (add_RepairRequest db r)"
  by (simp add: add_RepairRequest_def Let_def split: option.splits)

lemma swap_users_update_HelpRequest:
  "update_HelpRequest (swap_users P db) h = swap_users P (update_HelpRequest db h)"
  by (simp add: update_HelpRequest_def)

lemma swap_users_save_request:
  "save_request today (swap_users P db) u data =
     apsnd (swap_users P) (save_request today db u data)"
proof -
  obtain em it db1 where 1: "resolve_equipment_and_issue db data = ((em, it), db1)"
    by (cases "resolve_equipment_and_issue db data") auto
  show ?thesis
    by (simp add: save_request_def swap_users_resolve 1 swap_users_load_or_new
        swap_users_add_RepairRequest split: sum.splits prod.splits)
qed

lemma swap_users_simple:
  "delete_request (swap_users P db) u k = apsnd (swap_users P) (delete_request db u k)"
  "add_comment (swap_users P db) u k msg = apsnd (swap_users P) (add_comment db u k msg)"
  "create_help_request (swap_users P db) u hdata =
     apsnd (swap_users P) (create_help_request db u hdata)"
  by (simp_all add: delete_request_def add_comment_def create_help_request_def Let_def
      split: option.splits)

lemma swap_users_close_checks:
  "close_checks (swap_users P db) u cdata =
     map_sum id (\<lambda>(h, r, mu). (h, r, map_option (\<lambda>u. if P u then swap_role u else u) mu))
       (close_checks db u cdata)"
  by (simp add: close_checks_def swap_users_get_User swap_role_def
      split: option.splits)

lemma swap_users_close_help_request:
  "close_help_request now (swap_users P db) u cdata =
     apsnd (swap_users P) (close_help_request now db u cdata)"
proof (cases "close_checks db u cdata")
  case (Inl e)
  then show ?thesis by (simp add: close_help_request_def swap_users_close_checks)
next
  case (Inr x)
  obtain h r mu where x: "x = (h, r, mu)" by (cases x) auto
  show ?thesis
    by (cases mu)
      (simp_all add: close_help_request_def swap_users_close_checks Inr x
        swap_users_add_RepairRequest swap_users_update_HelpRequest Let_def
        split: option.splits)
qed

section \<open>At most one open help request\<close>

text \<open>
  Claim C1. No repair request has two open help requests. This holds after every
  sequence of calls of the five use cases, each committed or rolled back, that starts in
  a session where it holds, and each use case keeps it whether it returns or raises.
  When a repair request has an open help request, \<^verbatim>\<open>create_help_request\<close> for it
  raises and changes nothing, and what it raises for the assigned master of an existing
  request is \<^verbatim>\<open>HelpRequestAlreadyOpenError\<close>. After \<^verbatim>\<open>close_help_request\<close> has
  closed the help request, the master then assigned to the repair request opens a new
  one with a message that is not blank.
\<close>

theorem help_request_exclusivity:
  "(at_most_one_open db \<longrightarrow>
      at_most_one_open (run db calls)
      \<and> at_most_one_open (snd (save_request today db user ri))
      \<and> at_most_one_open (snd (delete_request db user k))
      \<and> at_most_one_open (snd (add_comment db user k msg))
      \<and> at_most_one_open (snd (create_help_request db user data))
      \<and> at_most_one_open (snd (close_help_request now db user cdata)))
   \<and> (open_help_requests db (hc_request_id data) \<noteq> [] \<longrightarrow>
        (\<exists>e. create_help_request db user data = (Inl e, db))
        \<and> (user_can_create_help_request user
             \<and> (\<exists>req. get_RepairRequest db (hc_request_id data) = Some req
                       \<and> rr_master_id req = Some (u_id user)) \<longrightarrow>
            create_help_request db user data = (Inl HelpRequestAlreadyOpenError, db)))
   \<and> (at_most_one_open db
        \<and> close_help_request now' db qm cdata' = (Inr h', db')
        \<and> user_can_create_help_request m
        \<and> (\<exists>req'. get_RepairRequest db' (hr_request_id h') = Some req'
                  \<and> rr_master_id req' = Some (u_id m))
        \<and> hc_request_id data' = hr_request_id h'
        \<and> strip (hc_message data') \<noteq> [] \<longrightarrow>
        (\<exists>h2. create_help_request db' m data' =
                 (Inr h2, db'\<lparr>help_requests := help_requests db' @ [h2]\<rparr>)
              \<and> hr_status h2 = STATUS_OPEN))"
proof (intro conjI impI)
  assume "at_most_one_open db"
  then show "at_most_one_open (run db calls)"
    and "at_most_one_open (snd (save_request today db user ri))"
    and "at_most_one_open (snd (delete_request db user k))"
    and "at_most_one_open (snd (add_comment db user k msg))"
    and "at_most_one_open (snd (create_help_request db user data))"
    and "at_most_one_open (snd (close_help_request now db user cdata))"
    by (simp_all add: run_inv save_request_inv delete_request_inv add_comment_inv
        create_help_request_inv close_help_request_inv)
next
  assume "open_help_requests db (hc_request_id data) \<noteq> []"
  then show "\<exists>e. create_help_request db user data = (Inl e, db)"
    by (rule create_help_request_blocked(1))
next
  assume o: "open_help_requests db (hc_request_id data) \<noteq> []"
    and "user_can_create_help_request user
         \<and> (\<exists>req. get_RepairRequest db (hc_request_id data) = Some req
                   \<and> rr_master_id req = Some (u_id user))"
  then show "create_help_request db user data = (Inl HelpRequestAlreadyOpenError, db)"
    using create_help_request_blocked(2)[OF o] by blast
next
  assume a: "at_most_one_open db
        \<and> close_help_request now' db qm cdata' = (Inr h', db')
        \<and> user_can_create_help_request m
        \<and> (\<exists>req'. get_RepairRequest db' (hr_request_id h') = Some req'
                  \<and> rr_master_id req' = Some (u_id m))
        \<and> hc_request_id data' = hr_request_id h'
        \<and> strip (hc_message data') \<noteq> []"
  then obtain req' where r: "get_RepairRequest db' (hc_request_id data') = Some req'"
    "rr_master_id req' = Some (u_id m)" by auto
  from a have inv: "at_most_one_open db"
    and cl: "close_help_request now' db qm cdata' = (Inr h', db')"
    and eq: "hc_request_id data' = hr_request_id h'" by simp_all
  from closed_none_open[OF inv cl] eq
  have "open_help_requests db' (hc_request_id data') = []" by simp
  from create_help_request_succeeds[OF _ r this] a
  show "\<exists>h2. create_help_request db' m data' =
                 (Inr h2, db'\<lparr>help_requests := help_requests db' @ [h2]\<rparr>)
              \<and> hr_status h2 = STATUS_OPEN"
    by blast
qed

lemma sample_db1: "sample_db_open
   = sample_db\<lparr>help_requests := [\<lparr>hr_id = 1, hr_request_id = 10, hr_created_by_master_id = 2,
        hr_quality_manager_id = None, hr_assigned_master_id = None, hr_status = STATUS_OPEN,
        hr_message = [104, 105], hr_resolution_note = None, hr_proposed_due_date = None,
        hr_closed_at = None\<rparr>]\<rparr>"
  by (simp add: sample_db_open_def run_def commit_or_rollback_def create_help_request_def
      user_can_create_help_request_def get_RepairRequest_def sample_defs next_id_def Let_def)


lemma sample_db_open_inv: "at_most_one_open sample_db_open"
  by (simp add: sample_db1 at_most_one_open_def open_help_requests_def sample_defs)

lemma sample_close_result:
  "close_help_request 500 sample_db_open (sample_user 5 ROLE_QUALITY_MANAGER) sample_close =
     (Inr \<lparr>hr_id = 1, hr_request_id = 10, hr_created_by_master_id = 2,
           hr_quality_manager_id = Some 5, hr_assigned_master_id = Some 3,
           hr_status = STATUS_CLOSED, hr_message = [104, 105],
           hr_resolution_note = Some [111, 107], hr_proposed_due_date = None,
           hr_closed_at = Some 500\<rparr>,
      sample_db
        \<lparr>repair_requests := [sample_request\<lparr>rr_master_id := Some 3, rr_due_date := Some 120\<rparr>],
         help_requests :=
           [\<lparr>hr_id = 1, hr_request_id = 10, hr_created_by_master_id = 2,
             hr_quality_manager_id = Some 5, hr_assigned_master_id = Some 3,
             hr_status = STATUS_CLOSED, hr_message = [104, 105],
             hr_resolution_note = Some [111, 107], hr_proposed_due_date = None,
             hr_closed_at = Some 500\<rparr>]\<rparr>)"
  by (simp add: sample_db1 close_help_request_def close_checks_def
      user_can_handle_help_request_def get_HelpRequest_def get_RepairRequest_def get_User_def
      add_RepairRequest_def update_HelpRequest_def or_None_def sample_defs Let_def)


theorem help_request_exclusivity_witness:
  "at_most_one_open sample_db_open
   \<and> open_help_requests sample_db_open 10 \<noteq> []
   \<and> at_most_one_open
        (run sample_db_open
          [CreateHelpRequest (sample_user 2 ROLE_MASTER) sample_open,
           CloseHelpRequest 500 (sample_user 5 ROLE_QUALITY_MANAGER) sample_close,
           CreateHelpRequest (sample_user 3 ROLE_SPECIALIST) sample_open])
   \<and> create_help_request sample_db_open (sample_user 2 ROLE_MASTER) sample_open =
        (Inl HelpRequestAlreadyOpenError, sample_db_open)
   \<and> (\<exists>h2 db3.
         create_help_request
           (snd (close_help_request 500 sample_db_open (sample_user 5 ROLE_QUALITY_MANAGER)
                   sample_close))
           (sample_user 3 ROLE_SPECIALIST) sample_open = (Inr h2, db3)
         \<and> hr_status h2 = STATUS_OPEN)"
proof -
  have o: "open_help_requests sample_db_open 10 \<noteq> []"
    by (simp add: sample_db1 open_help_requests_def sample_defs)
  have g: "user_can_create_help_request (sample_user 2 ROLE_MASTER)"
    "user_can_create_help_request (sample_user 3 ROLE_SPECIALIST)"
    "get_RepairRequest sample_db_open 10 = Some sample_request"
    "rr_master_id sample_request = Some 2" "hc_request_id sample_open = 10"
    "strip (hc_message sample_open) \<noteq> []"
    by (simp_all add: sample_db1 user_can_create_help_request_def get_RepairRequest_def
        sample_defs)
  obtain h' db' where cl:
    "close_help_request 500 sample_db_open (sample_user 5 ROLE_QUALITY_MANAGER) sample_close
       = (Inr h', db')"
    and h': "hr_request_id h' = 10"
    and r: "get_RepairRequest db' 10
              = Some (sample_request\<lparr>rr_master_id := Some 3, rr_due_date := Some 120\<rparr>)"
    unfolding sample_close_result by (simp add: get_RepairRequest_def sample_defs)
  show ?thesis
    using help_request_exclusivity
      [where db = sample_db_open and user = "sample_user 2 ROLE_MASTER" and data = sample_open
        and now' = 500 and qm = "sample_user 5 ROLE_QUALITY_MANAGER" and cdata' = sample_close
        and h' = h' and db' = db' and today = 0 and ri = sample_input and k = 10
        and msg = "[]" and now = 0 and cdata = sample_close
        and m = "sample_user 3 ROLE_SPECIALIST" and data' = sample_open
        and calls = "[CreateHelpRequest (sample_user 2 ROLE_MASTER) sample_open,
           CloseHelpRequest 500 (sample_user 5 ROLE_QUALITY_MANAGER) sample_close,
           CreateHelpRequest (sample_user 3 ROLE_SPECIALIST) sample_open]"]
      sample_db_open_inv o g r cl h'
    by auto
qed

section \<open>The status transition policy\<close>

text \<open>
  Claim C2. \<^verbatim>\<open>user_can_change_status\<close>, for statuses that are identified by their
  primary key (two statuses of one key are one status): a Manager, an Operator and a
  QualityManager may make every transition; a Master or a Specialist may make a transition
  exactly when old and new are the same status, or old is not final, or both are final,
  and may not exactly when old is final and new is not; a Client may only keep the status;
  a user whose role name is none of the six (a user without a role has the name
  \<^verbatim>\<open>""\<close>) may make no transition.
\<close>

theorem status_transition_policy:
  assumes key: "rs_id old = rs_id new \<Longrightarrow> old = new"
  shows "(role_name (Some user) \<in> {ROLE_MANAGER, ROLE_OPERATOR, ROLE_QUALITY_MANAGER} \<longrightarrow>
            user_can_change_status user old new)
       \<and> (is_master_role (role_name (Some user)) \<longrightarrow>
            (user_can_change_status user old new \<longleftrightarrow>
               old = new \<or> \<not> rs_is_final old \<or> (rs_is_final old \<and> rs_is_final new)))
       \<and> (is_master_role (role_name (Some user)) \<longrightarrow>
            (\<not> user_can_change_status user old new \<longleftrightarrow>
               rs_is_final old \<and> \<not> rs_is_final new))
       \<and> (role_name (Some user) = ROLE_CLIENT \<longrightarrow>
            (user_can_change_status user old new \<longleftrightarrow> old = new))
       \<and> (role_name (Some user) \<notin> {ROLE_MANAGER, ROLE_OPERATOR, ROLE_QUALITY_MANAGER,
                                      ROLE_MASTER, ROLE_SPECIALIST, ROLE_CLIENT} \<longrightarrow>
            \<not> user_can_change_status user old new)"
  using key
  by (auto simp: user_can_change_status_def is_master_role_def Let_def)

theorem status_transition_policy_witness:
  "user_can_change_status (sample_user 1 ROLE_QUALITY_MANAGER) status_done status_work
   \<and> \<not> user_can_change_status (sample_user 2 ROLE_MASTER) status_done status_work
   \<and> user_can_change_status (sample_user 2 ROLE_SPECIALIST) status_work status_done
   \<and> \<not> user_can_change_status (sample_user 7 ROLE_CLIENT) status_work status_done
   \<and> user_can_change_status (sample_user 7 ROLE_CLIENT) status_work status_work
   \<and> \<not> user_can_change_status (sample_user 9 []) status_work status_work"
  using status_transition_policy [of status_done status_work "sample_user 1 ROLE_QUALITY_MANAGER"]
    status_transition_policy [of status_done status_work "sample_user 2 ROLE_MASTER"]
    status_transition_policy [of status_work status_done "sample_user 2 ROLE_SPECIALIST"]
    status_transition_policy [of status_work status_done "sample_user 7 ROLE_CLIENT"]
    status_transition_policy [of status_work status_work "sample_user 7 ROLE_CLIENT"]
    status_transition_policy [of status_work status_work "sample_user 9 []"]
  by (simp add: status_work_def status_done_def)

section \<open>Viewing and editing a request\<close>

text \<open>
  Claim C3. A Manager, an Operator and a QualityManager can view and edit every request;
  a Master or a Specialist can view, and can edit, a request exactly when they are its
  assigned master; a Client can view a request exactly when they are its client, and
  can edit it exactly when they are its client and its status is not final, so the
  client of a request whose status is final cannot edit it.
\<close>

theorem view_edit_authorization:
  "(role_name (Some user) \<in> {ROLE_MANAGER, ROLE_OPERATOR, ROLE_QUALITY_MANAGER} \<longrightarrow>
      user_can_view_request user req \<and> user_can_edit_request user req)
   \<and> (is_master_role (role_name (Some user)) \<longrightarrow>
        (user_can_view_request user req \<longleftrightarrow> rr_master_id req = Some (u_id user))
        \<and> (user_can_edit_request user req \<longleftrightarrow> rr_master_id req = Some (u_id user)))
   \<and> (role_name (Some user) = ROLE_CLIENT \<longrightarrow>
        (user_can_view_request user req \<longleftrightarrow> rr_client_id req = Some (u_id user))
        \<and> (user_can_edit_request user req \<longleftrightarrow>
             rr_client_id req = Some (u_id user) \<and> \<not> rs_is_final (rr_status req)))
   \<and> (role_name (Some user) = ROLE_CLIENT \<and> rs_is_final (rr_status req) \<longrightarrow>
        \<not> user_can_edit_request user req)"
  by (auto simp: user_can_view_request_def user_can_edit_request_def is_master_role_def Let_def)

theorem view_edit_authorization_witness:
  "user_can_view_request (sample_user 1 ROLE_OPERATOR) sample_request
   \<and> user_can_edit_request (sample_user 1 ROLE_OPERATOR) sample_request
   \<and> user_can_edit_request (sample_user 2 ROLE_MASTER) sample_request
   \<and> \<not> user_can_view_request (sample_user 3 ROLE_SPECIALIST) sample_request
   \<and> user_can_edit_request (sample_user 7 ROLE_CLIENT) sample_request
   \<and> user_can_view_request (sample_user 7 ROLE_CLIENT) sample_request_done
   \<and> \<not> user_can_edit_request (sample_user 7 ROLE_CLIENT) sample_request_done"
  using view_edit_authorization [of "sample_user 1 ROLE_OPERATOR" sample_request]
    view_edit_authorization [of "sample_user 2 ROLE_MASTER" sample_request]
    view_edit_authorization [of "sample_user 3 ROLE_SPECIALIST" sample_request]
    view_edit_authorization [of "sample_user 7 ROLE_CLIENT" sample_request]
    view_edit_authorization [of "sample_user 7 ROLE_CLIENT" sample_request_done]
  by (simp add: sample_request_def sample_request_done_def status_work_def status_done_def)

section \<open>The status of a request that a Client creates\<close>

text \<open>
  Claim C4, amended. When a Client creates a request (\<^verbatim>\<open>data.id\<close> is \<^verbatim>\<open>None\<close>), the
  submitted status id has no effect on \<^verbatim>\<open>save_request\<close>, and the status of the request
  returned is the one \<^verbatim>\<open>get_new_request_status\<close> yields: the first status whose name is
  the name for new requests, final or not; if there is none, the status that is not final
  with the least id. When no status has that name and every status is final,
  \<^verbatim>\<open>get_new_request_status\<close> raises, and the whole save raises, \<^verbatim>\<open>RuntimeError\<close>, which
  is not a \<^verbatim>\<open>DomainError\<close>.
\<close>

theorem new_request_status_for_client:
  "(role_name (Some user) = ROLE_CLIENT \<and> ri_id data = None \<longrightarrow>
      save_request today db user (data\<lparr>ri_status_id := sid\<rparr>) = save_request today db user data
      \<and> (save_request today db user data = (Inr r, db') \<longrightarrow>
           get_new_request_status db = Inr (rr_status r)
           \<and> rr_status_id r = rs_id (rr_status r))
      \<and> ((\<forall>t\<in>set (request_statuses db). rs_name t \<noteq> NEW_REQUEST_NAME \<and> rs_is_final t) \<longrightarrow>
           fst (save_request today db user data) = Inl RuntimeError))
   \<and> (find (\<lambda>t. rs_name t = NEW_REQUEST_NAME) (request_statuses db) = Some s \<longrightarrow>
        get_new_request_status db = Inr s)
   \<and> (get_new_request_status db = Inr s \<longrightarrow>
        s \<in> set (request_statuses db)
        \<and> (rs_name s = NEW_REQUEST_NAME
            \<or> ((\<forall>t\<in>set (request_statuses db). rs_name t \<noteq> NEW_REQUEST_NAME)
                \<and> \<not> rs_is_final s
                \<and> (\<forall>t\<in>set (request_statuses db). \<not> rs_is_final t \<longrightarrow> rs_id s \<le> rs_id t))))
   \<and> ((\<exists>e. get_new_request_status db = Inl e) \<longleftrightarrow>
        (\<forall>t\<in>set (request_statuses db). rs_name t \<noteq> NEW_REQUEST_NAME \<and> rs_is_final t))
   \<and> \<not> is_DomainError RuntimeError"
proof (intro conjI impI)
  assume a: "role_name (Some user) = ROLE_CLIENT \<and> ri_id data = None"
  then have c: "role_name (Some user) = ROLE_CLIENT" and n: "ri_id data = None" by simp_all
  show "save_request today db user (data\<lparr>ri_status_id := sid\<rparr>) =
          save_request today db user data"
    by (rule save_request_client_create_status_id[OF c n])
  show "get_new_request_status db = Inr (rr_status r)"
    if "save_request today db user data = (Inr r, db')"
    by (rule save_request_client_create(1)[OF c n that])
  show "rr_status_id r = rs_id (rr_status r)"
    if "save_request today db user data = (Inr r, db')"
    by (rule save_request_saved_completion(2)[OF that])
  show "fst (save_request today db user data) = Inl RuntimeError"
    if "\<forall>t\<in>set (request_statuses db). rs_name t \<noteq> NEW_REQUEST_NAME \<and> rs_is_final t"
    using save_request_client_create(2)[OF c n that] by simp
next
  assume "find (\<lambda>t. rs_name t = NEW_REQUEST_NAME) (request_statuses db) = Some s"
  then show "get_new_request_status db = Inr s" by (rule get_new_request_status_named)
next
  assume g: "get_new_request_status db = Inr s"
  show "s \<in> set (request_statuses db)" by (rule get_new_request_status_Inr(1)[OF g])
  show "rs_name s = NEW_REQUEST_NAME
            \<or> ((\<forall>t\<in>set (request_statuses db). rs_name t \<noteq> NEW_REQUEST_NAME)
                \<and> \<not> rs_is_final s
                \<and> (\<forall>t\<in>set (request_statuses db). \<not> rs_is_final t \<longrightarrow> rs_id s \<le> rs_id t))"
    by (rule get_new_request_status_Inr(2)[OF g])
next
  show "(\<exists>e. get_new_request_status db = Inl e) \<longleftrightarrow>
        (\<forall>t\<in>set (request_statuses db). rs_name t \<noteq> NEW_REQUEST_NAME \<and> rs_is_final t)"
    by (rule get_new_request_status_Inl)
next
  show "\<not> is_DomainError RuntimeError" by simp
qed

theorem new_request_status_for_client_witness:
  "(\<exists>r db'.
      save_request 200 sample_db (sample_user 7 ROLE_CLIENT) sample_input = (Inr r, db')
      \<and> ri_status_id sample_input = Some 3
      \<and> rr_status r = status_new \<and> rr_status_id r = 1)
   \<and> fst (save_request 200 (sample_db\<lparr>request_statuses := [status_done]\<rparr>)
             (sample_user 7 ROLE_CLIENT) sample_input) = Inl RuntimeError"
proof -
  from sample_client_create obtain r db' where ok:
    "save_request 200 sample_db (sample_user 7 ROLE_CLIENT) sample_input = (Inr r, db')"
    by blast
  have g: "ri_id sample_input = None" "ri_status_id sample_input = Some 3"
    "get_new_request_status sample_db = Inr status_new" "rs_id status_new = 1"
    by (simp_all add: sample_input_def get_new_request_status_def sample_defs)
  have f: "\<forall>t\<in>set (request_statuses (sample_db\<lparr>request_statuses := [status_done]\<rparr>)).
             rs_name t \<noteq> NEW_REQUEST_NAME \<and> rs_is_final t"
    by (simp add: status_done_def NEW_REQUEST_NAME_def)
  from new_request_status_for_client
    [where user = "sample_user 7 ROLE_CLIENT" and data = sample_input and today = 200
      and db = sample_db and r = r and db' = db', THEN conjunct1] ok g
  have 1: "rr_status r = status_new \<and> rr_status_id r = 1" by simp
  from new_request_status_for_client
    [where user = "sample_user 7 ROLE_CLIENT" and data = sample_input and today = 200
      and db = "sample_db\<lparr>request_statuses := [status_done]\<rparr>", THEN conjunct1] g(1) f
  have 2: "fst (save_request 200 (sample_db\<lparr>request_statuses := [status_done]\<rparr>)
             (sample_user 7 ROLE_CLIENT) sample_input) = Inl RuntimeError"
    by simp
  from ok g(2) 1 2 show ?thesis by blast
qed

text \<open>
  The claim as it was stated fails twice. With a final status only, a Client's create
  raises \<^verbatim>\<open>RuntimeError\<close>, not \<^verbatim>\<open>BusinessRuleViolationError\<close>. With a final status that
  bears the name for new requests, and no other status, the create returns a request in
  that final status.
\<close>

theorem new_request_status_counterexample:
  "role_name (Some (sample_user 7 ROLE_CLIENT)) = ROLE_CLIENT
   \<and> ri_id sample_input = None
   \<and> list_all rs_is_final (request_statuses (sample_db\<lparr>request_statuses := [status_done]\<rparr>))
   \<and> save_request 200 (sample_db\<lparr>request_statuses := [status_done]\<rparr>)
        (sample_user 7 ROLE_CLIENT) sample_input
       = (Inl RuntimeError, sample_db\<lparr>request_statuses := [status_done]\<rparr>)
   \<and> fst (save_request 200 (sample_db\<lparr>request_statuses := [status_done]\<rparr>)
             (sample_user 7 ROLE_CLIENT) sample_input) \<noteq> Inl BusinessRuleViolationError
   \<and> \<not> is_DomainError RuntimeError
   \<and> list_all rs_is_final
        (request_statuses
           (sample_db\<lparr>request_statuses := [status_done\<lparr>rs_name := NEW_REQUEST_NAME\<rparr>]\<rparr>))
   \<and> fst (save_request 200
             (sample_db\<lparr>request_statuses := [status_done\<lparr>rs_name := NEW_REQUEST_NAME\<rparr>]\<rparr>)
             (sample_user 7 ROLE_CLIENT) sample_input)
       = Inr \<lparr>rr_id = Some 11, rr_start_date = 100, rr_equipment_model_id = 1,
              rr_issue_type_id = 1, rr_problem_description = [120], rr_status_id = 3,
              rr_status = status_done\<lparr>rs_name := NEW_REQUEST_NAME\<rparr>,
              rr_completion_date = Some 200, rr_due_date = None, rr_repair_parts = None,
              rr_master_id = None, rr_client_id = Some 7\<rparr>"
  unfolding save_request_def sample_resolve_statuses
  by (simp add: load_or_new_def user_can_create_request_def resolve_new_status_for_create_def
      get_new_request_status_def assign_fields_def apply_completion_date_def
      apply_due_date_def apply_repair_parts_def apply_master_def apply_client_def
      user_can_assign_master_def add_RepairRequest_def RepairRequest_new_def next_id_def
      List.map_filter_def NEW_REQUEST_NAME_def sample_defs sample_input_def Let_def)

section \<open>What closing a help request changes\<close>

text \<open>
  Claim C5. When \<^verbatim>\<open>close_help_request\<close> returns, the stored help request is the one
  returned; its resolution note is the stripped note, or \<^verbatim>\<open>None\<close> when that is
  empty: it is \<^verbatim>\<open>None\<close> exactly when the submitted note is whitespace only, and
  otherwise it is the submitted note without a prefix and a suffix of whitespace, and
  neither begins nor ends with whitespace; its quality manager is the caller; its status is \<^verbatim>\<open>"closed"\<close>; its closing
  time is the clock's. If \<^verbatim>\<open>assigned_master_id\<close> was given, that user exists and has
  the role Master or Specialist, and both the repair request's master and the help
  request's assigned master are that user; if \<^verbatim>\<open>new_due_date\<close> was given, it is the
  repair request's due date. When all earlier checks pass and the given master does not
  exist, or has a role that is neither Master nor Specialist, the call raises
  \<^verbatim>\<open>BusinessRuleViolationError\<close> and changes nothing.
\<close>

theorem close_help_request_effects:
  "(close_help_request now db user data = (Inr h', db') \<longrightarrow>
      get_HelpRequest db' (cl_help_id data) = Some h'
      \<and> hr_resolution_note h' =
          (if strip (cl_resolution_note data) = [] then None
           else Some (strip (cl_resolution_note data)))
      \<and> (hr_resolution_note h' = None \<longleftrightarrow> list_all isspace (cl_resolution_note data))
      \<and> (\<forall>n. hr_resolution_note h' = Some n \<longrightarrow>
             n \<noteq> [] \<and> \<not> isspace (hd n) \<and> \<not> isspace (last n)
             \<and> (\<exists>pre suf. cl_resolution_note data = pre @ n @ suf
                    \<and> list_all isspace pre \<and> list_all isspace suf))
      \<and> hr_quality_manager_id h' = Some (u_id user)
      \<and> hr_status h' = STATUS_CLOSED
      \<and> hr_closed_at h' = Some now
      \<and> (\<exists>r'. get_RepairRequest db' (hr_request_id h') = Some r'
             \<and> (\<forall>m. cl_assigned_master_id data = Some m \<longrightarrow>
                    rr_master_id r' = Some m \<and> hr_assigned_master_id h' = Some m
                    \<and> (\<exists>u role. get_User db m = Some u \<and> u_role u = Some role
                          \<and> is_master_role (ur_name role)))
             \<and> (\<forall>d. cl_new_due_date data = Some d \<longrightarrow> rr_due_date r' = Some d)))
   \<and> (user_can_handle_help_request user
       \<and> get_HelpRequest db (cl_help_id data) = Some h
       \<and> hr_status h = STATUS_OPEN
       \<and> get_RepairRequest db (hr_request_id h) = Some r
       \<and> (\<forall>d. cl_new_due_date data = Some d \<longrightarrow> rr_start_date r \<le> d)
       \<and> cl_assigned_master_id data = Some m
       \<and> (get_User db m = None
            \<or> (\<exists>u role. get_User db m = Some u \<and> u_role u = Some role
                  \<and> \<not> is_master_role (ur_name role))) \<longrightarrow>
       close_help_request now db user data = (Inl BusinessRuleViolationError, db))"
proof (intro conjI impI)
  assume ok: "close_help_request now db user data = (Inr h', db')"
  note s = close_help_request_success[OF ok]
  show "get_HelpRequest db' (cl_help_id data) = Some h'" by (rule s(1))
  show "hr_resolution_note h' =
          (if strip (cl_resolution_note data) = [] then None
           else Some (strip (cl_resolution_note data)))"
    using s(2) by (simp add: or_None_def)
  show "hr_resolution_note h' = None \<longleftrightarrow> list_all isspace (cl_resolution_note data)"
    using s(2) strip_Nil_iff[of "cl_resolution_note data"] by (simp add: or_None_def)
  show "\<forall>n. hr_resolution_note h' = Some n \<longrightarrow>
             n \<noteq> [] \<and> \<not> isspace (hd n) \<and> \<not> isspace (last n)
             \<and> (\<exists>pre suf. cl_resolution_note data = pre @ n @ suf
                    \<and> list_all isspace pre \<and> list_all isspace suf)"
  proof (intro allI impI)
    fix n
    assume "hr_resolution_note h' = Some n"
    with s(2) have n: "strip (cl_resolution_note data) = n" "n \<noteq> []"
      by (auto simp: or_None_def split: if_splits)
    from strip_ends[of "cl_resolution_note data"] strip_decomp[of "cl_resolution_note data"] n
    show "n \<noteq> [] \<and> \<not> isspace (hd n) \<and> \<not> isspace (last n)
             \<and> (\<exists>pre suf. cl_resolution_note data = pre @ n @ suf
                    \<and> list_all isspace pre \<and> list_all isspace suf)"
      by simp
  qed
  show "hr_quality_manager_id h' = Some (u_id user)" by (rule s(3))
  show "hr_status h' = STATUS_CLOSED" by (rule s(4))
  show "hr_closed_at h' = Some now" by (rule s(5))
  show "\<exists>r'. get_RepairRequest db' (hr_request_id h') = Some r'
             \<and> (\<forall>m. cl_assigned_master_id data = Some m \<longrightarrow>
                    rr_master_id r' = Some m \<and> hr_assigned_master_id h' = Some m
                    \<and> (\<exists>u role. get_User db m = Some u \<and> u_role u = Some role
                          \<and> is_master_role (ur_name role)))
             \<and> (\<forall>d. cl_new_due_date data = Some d \<longrightarrow> rr_due_date r' = Some d)"
    by (rule s(6))
next
  assume "user_can_handle_help_request user
       \<and> get_HelpRequest db (cl_help_id data) = Some h
       \<and> hr_status h = STATUS_OPEN
       \<and> get_RepairRequest db (hr_request_id h) = Some r
       \<and> (\<forall>d. cl_new_due_date data = Some d \<longrightarrow> rr_start_date r \<le> d)
       \<and> cl_assigned_master_id data = Some m
       \<and> (get_User db m = None
            \<or> (\<exists>u role. get_User db m = Some u \<and> u_role u = Some role
                  \<and> \<not> is_master_role (ur_name role)))"
  then show "close_help_request now db user data = (Inl BusinessRuleViolationError, db)"
    using close_help_request_bad_master[of user db data h r m now] by blast
qed

lemma sample_close_padded:
  "\<exists>h' db'.
     close_help_request 500 sample_db_open (sample_user 5 ROLE_QUALITY_MANAGER)
       (sample_close\<lparr>cl_resolution_note := [9, 32, 111, 32, 107, 10, 32]\<rparr>) = (Inr h', db')
     \<and> hr_request_id h' = 10"
  by (simp add: sample_db1 close_help_request_def close_checks_def
      user_can_handle_help_request_def get_HelpRequest_def get_RepairRequest_def get_User_def
      add_RepairRequest_def update_HelpRequest_def sample_defs Let_def)

theorem close_help_request_effects_witness:
  "(\<exists>h' db'.
      close_help_request 500 sample_db_open (sample_user 5 ROLE_QUALITY_MANAGER)
        (sample_close\<lparr>cl_resolution_note := [9, 32, 111, 32, 107, 10, 32]\<rparr>) = (Inr h', db')
      \<and> get_HelpRequest db' 1 = Some h'
      \<and> hr_resolution_note h' = Some [111, 32, 107]
      \<and> hr_quality_manager_id h' = Some 5
      \<and> hr_status h' = STATUS_CLOSED
      \<and> hr_closed_at h' = Some 500
      \<and> hr_assigned_master_id h' = Some 3
      \<and> (\<exists>r'. get_RepairRequest db' 10 = Some r' \<and> rr_master_id r' = Some 3
             \<and> rr_due_date r' = Some 120))
   \<and> (\<exists>h' db'.
        close_help_request 500 sample_db_open (sample_user 5 ROLE_QUALITY_MANAGER)
          (sample_close\<lparr>cl_resolution_note := [32, 10]\<rparr>) = (Inr h', db')
        \<and> hr_resolution_note h' = None)
   \<and> close_help_request 500 sample_db_open (sample_user 5 ROLE_QUALITY_MANAGER)
        (sample_close\<lparr>cl_assigned_master_id := Some 7\<rparr>)
        = (Inl BusinessRuleViolationError, sample_db_open)"
proof -
  let ?padded = "sample_close\<lparr>cl_resolution_note := [9, 32, 111, 32, 107, 10, 32]\<rparr>"
  let ?blank = "sample_close\<lparr>cl_resolution_note := [32, 10]\<rparr>"
  from sample_close_padded obtain h' db' where ok:
    "close_help_request 500 sample_db_open (sample_user 5 ROLE_QUALITY_MANAGER) ?padded
       = (Inr h', db')"
    and rid: "hr_request_id h' = 10"
    by blast
  have v: "cl_help_id ?padded = 1"
    "strip (cl_resolution_note ?padded) = [111, 32, 107]"
    "cl_assigned_master_id ?padded = Some 3" "cl_new_due_date ?padded = Some 120"
    by (simp_all add: sample_close_def strip_def lstrip_def rstrip_def isspace_def)
  obtain hb dbb where okb:
    "close_help_request 500 sample_db_open (sample_user 5 ROLE_QUALITY_MANAGER) ?blank
       = (Inr hb, dbb)"
    by (simp add: sample_db1 close_help_request_def close_checks_def
        user_can_handle_help_request_def get_HelpRequest_def get_RepairRequest_def
        get_User_def add_RepairRequest_def update_HelpRequest_def sample_defs Let_def)
  have vb: "list_all isspace (cl_resolution_note ?blank)"
    by (simp add: isspace_def)
  have bad: "user_can_handle_help_request (sample_user 5 ROLE_QUALITY_MANAGER)
       \<and> get_HelpRequest sample_db_open
            (cl_help_id (sample_close\<lparr>cl_assigned_master_id := Some 7\<rparr>))
           = Some (hd (help_requests sample_db_open))
       \<and> hr_status (hd (help_requests sample_db_open)) = STATUS_OPEN
       \<and> get_RepairRequest sample_db_open (hr_request_id (hd (help_requests sample_db_open)))
           = Some sample_request
       \<and> (\<forall>d. cl_new_due_date (sample_close\<lparr>cl_assigned_master_id := Some 7\<rparr>) = Some d
              \<longrightarrow> rr_start_date sample_request \<le> d)
       \<and> cl_assigned_master_id (sample_close\<lparr>cl_assigned_master_id := Some 7\<rparr>) = Some 7
       \<and> (get_User sample_db_open 7 = None
            \<or> (\<exists>u role. get_User sample_db_open 7 = Some u \<and> u_role u = Some role
                  \<and> \<not> is_master_role (ur_name role)))"
    by (simp add: sample_db1 user_can_handle_help_request_def get_HelpRequest_def
        get_RepairRequest_def get_User_def sample_defs)
  from close_help_request_effects
    [where now = 500 and db = sample_db_open and user = "sample_user 5 ROLE_QUALITY_MANAGER"
      and data = ?padded and h' = h' and db' = db', THEN conjunct1] ok rid v
  have 1: "get_HelpRequest db' 1 = Some h'
      \<and> hr_resolution_note h' = Some [111, 32, 107]
      \<and> hr_quality_manager_id h' = Some 5
      \<and> hr_status h' = STATUS_CLOSED
      \<and> hr_closed_at h' = Some 500
      \<and> hr_assigned_master_id h' = Some 3
      \<and> (\<exists>r'. get_RepairRequest db' 10 = Some r' \<and> rr_master_id r' = Some 3
             \<and> rr_due_date r' = Some 120)"
    by auto
  from close_help_request_effects
    [where now = 500 and db = sample_db_open and user = "sample_user 5 ROLE_QUALITY_MANAGER"
      and data = ?blank and h' = hb and db' = dbb, THEN conjunct1] okb vb
  have b: "hr_resolution_note hb = None" by blast
  from close_help_request_effects
    [where now = 500 and db = sample_db_open and user = "sample_user 5 ROLE_QUALITY_MANAGER"
      and data = "sample_close\<lparr>cl_assigned_master_id := Some 7\<rparr>"
      and h = "hd (help_requests sample_db_open)" and r = sample_request and m = 7,
      THEN conjunct2] bad
  have 2: "close_help_request 500 sample_db_open (sample_user 5 ROLE_QUALITY_MANAGER)
        (sample_close\<lparr>cl_assigned_master_id := Some 7\<rparr>)
        = (Inl BusinessRuleViolationError, sample_db_open)"
    by blast
  from ok 1 okb b 2 show ?thesis by blast
qed

section \<open>Closing twice, and closing with a due date before the start\<close>

text \<open>
  Claim C6. \<^verbatim>\<open>close_help_request\<close> on a help request whose status is \<^verbatim>\<open>"closed"\<close>
  never returns, and for a caller who may handle help requests it raises
  \<^verbatim>\<open>BusinessRuleViolationError\<close>; so does a second close after a first one returned.
  For such a caller, an open help request and its repair request, a
  \<^verbatim>\<open>new_due_date\<close> before the start date of the repair request raises
  \<^verbatim>\<open>BusinessRuleViolationError\<close>. In each of these cases, and whenever the call raises,
  the session is left as it was.
\<close>

theorem close_help_request_rejections:
  "(get_HelpRequest db (cl_help_id data) = Some h \<and> hr_status h = STATUS_CLOSED \<longrightarrow>
      (\<exists>e. close_help_request now db user data = (Inl e, db))
      \<and> (user_can_handle_help_request user \<longrightarrow>
           close_help_request now db user data = (Inl BusinessRuleViolationError, db)))
   \<and> (close_help_request now db user data = (Inr h', db')
       \<and> user_can_handle_help_request user'
       \<and> cl_help_id data' = cl_help_id data \<longrightarrow>
       close_help_request now' db' user' data' = (Inl BusinessRuleViolationError, db'))
   \<and> (user_can_handle_help_request user
       \<and> get_HelpRequest db (cl_help_id data) = Some h
       \<and> hr_status h = STATUS_OPEN
       \<and> get_RepairRequest db (hr_request_id h) = Some r
       \<and> cl_new_due_date data = Some d
       \<and> d < rr_start_date r \<longrightarrow>
       close_help_request now db user data = (Inl BusinessRuleViolationError, db))
   \<and> (fst (close_help_request now db user data) = Inl e \<longrightarrow>
       snd (close_help_request now db user data) = db)"
proof (intro conjI impI)
  assume a: "get_HelpRequest db (cl_help_id data) = Some h \<and> hr_status h = STATUS_CLOSED"
  then have c: "hr_status h \<noteq> STATUS_OPEN" by simp
  from a close_help_request_closed(1)[OF _ c]
  show "\<exists>e. close_help_request now db user data = (Inl e, db)" by blast
  assume "user_can_handle_help_request user"
  with a close_help_request_closed(2)[OF _ c]
  show "close_help_request now db user data = (Inl BusinessRuleViolationError, db)" by blast
next
  assume a: "close_help_request now db user data = (Inr h', db')
       \<and> user_can_handle_help_request user'
       \<and> cl_help_id data' = cl_help_id data"
  then have ok: "close_help_request now db user data = (Inr h', db')" by simp
  from close_help_request_success(1,4)[OF ok] a
  have g: "get_HelpRequest db' (cl_help_id data') = Some h'" and c: "hr_status h' \<noteq> STATUS_OPEN"
    by simp_all
  from close_help_request_closed(2)[OF g c] a
  show "close_help_request now' db' user' data' = (Inl BusinessRuleViolationError, db')"
    by blast
next
  assume "user_can_handle_help_request user
       \<and> get_HelpRequest db (cl_help_id data) = Some h
       \<and> hr_status h = STATUS_OPEN
       \<and> get_RepairRequest db (hr_request_id h) = Some r
       \<and> cl_new_due_date data = Some d
       \<and> d < rr_start_date r"
  then show "close_help_request now db user data = (Inl BusinessRuleViolationError, db)"
    using close_help_request_early_due_date[of user db data h r d now] by blast
next
  assume "fst (close_help_request now db user data) = Inl e"
  then show "snd (close_help_request now db user data) = db"
    by (rule close_help_request_failure_frame)
qed

theorem close_help_request_rejections_witness:
  "(\<exists>h' db'.
      close_help_request 500 sample_db_open (sample_user 5 ROLE_QUALITY_MANAGER) sample_close
        = (Inr h', db')
      \<and> close_help_request 501 db' (sample_user 1 ROLE_MANAGER) sample_close
          = (Inl BusinessRuleViolationError, db'))
   \<and> close_help_request 500 sample_db_open (sample_user 5 ROLE_QUALITY_MANAGER)
        (sample_close\<lparr>cl_new_due_date := Some 99\<rparr>)
        = (Inl BusinessRuleViolationError, sample_db_open)"
proof -
  obtain h' db' where ok:
    "close_help_request 500 sample_db_open (sample_user 5 ROLE_QUALITY_MANAGER) sample_close
       = (Inr h', db')"
    unfolding sample_close_result by simp
  have m: "user_can_handle_help_request (sample_user 1 ROLE_MANAGER)"
    by (simp add: user_can_handle_help_request_def)
  from close_help_request_rejections
    [where now = 500 and db = sample_db_open and user = "sample_user 5 ROLE_QUALITY_MANAGER"
      and data = sample_close and h' = h' and db' = db' and now' = 501
      and user' = "sample_user 1 ROLE_MANAGER" and data' = sample_close,
      THEN conjunct2, THEN conjunct1] ok m
  have 1: "close_help_request 501 db' (sample_user 1 ROLE_MANAGER) sample_close
          = (Inl BusinessRuleViolationError, db')"
    by blast
  have early: "user_can_handle_help_request (sample_user 5 ROLE_QUALITY_MANAGER)
       \<and> get_HelpRequest sample_db_open (cl_help_id (sample_close\<lparr>cl_new_due_date := Some 99\<rparr>))
           = Some (hd (help_requests sample_db_open))
       \<and> hr_status (hd (help_requests sample_db_open)) = STATUS_OPEN
       \<and> get_RepairRequest sample_db_open (hr_request_id (hd (help_requests sample_db_open)))
           = Some sample_request
       \<and> cl_new_due_date (sample_close\<lparr>cl_new_due_date := Some 99\<rparr>) = Some 99
       \<and> 99 < rr_start_date sample_request"
    by (simp add: sample_db1 user_can_handle_help_request_def get_HelpRequest_def
        get_RepairRequest_def sample_defs)
  from close_help_request_rejections
    [where now = 500 and db = sample_db_open and user = "sample_user 5 ROLE_QUALITY_MANAGER"
      and data = "sample_close\<lparr>cl_new_due_date := Some 99\<rparr>"
      and h = "hd (help_requests sample_db_open)" and r = sample_request and d = 99,
      THEN conjunct2, THEN conjunct2, THEN conjunct1] early
  have 2: "close_help_request 500 sample_db_open (sample_user 5 ROLE_QUALITY_MANAGER)
        (sample_close\<lparr>cl_new_due_date := Some 99\<rparr>)
        = (Inl BusinessRuleViolationError, sample_db_open)"
    by blast
  from ok 1 2 show ?thesis by blast
qed

section \<open>The completion date\<close>

text \<open>
  Claim C7. When \<^verbatim>\<open>save_request\<close> returns, the request it returns is stored, its status
  is the new status that the first half of the call resolved, and its completion date is
  the submitted one, or today's date when none was submitted, if that status is final,
  and the submitted one as it is (possibly \<^verbatim>\<open>None\<close>) if it is not. So "a request
  whose status is final has a completion date" holds after every use case, and after
  every sequence of committed or rolled-back calls, when it held before.
\<close>

theorem completion_date_rule:
  "(save_request today db user data = (Inr r, db') \<longrightarrow>
      r \<in> set (repair_requests db')
      \<and> (\<exists>req. load_or_new (snd (resolve_equipment_and_issue db data)) user data
                   = Inr (req, rr_status r))
      \<and> rr_status_id r = rs_id (rr_status r)
      \<and> (rs_is_final (rr_status r) \<longrightarrow>
           rr_completion_date r =
             Some (case ri_completion_date data of None \<Rightarrow> today | Some d \<Rightarrow> d))
      \<and> (\<not> rs_is_final (rr_status r) \<longrightarrow> rr_completion_date r = ri_completion_date data))
   \<and> (completion_set_when_final db \<longrightarrow>
        completion_set_when_final (run db calls)
        \<and> completion_set_when_final (snd (save_request today db user data))
        \<and> completion_set_when_final (snd (delete_request db user k))
        \<and> completion_set_when_final (snd (add_comment db user k msg))
        \<and> completion_set_when_final (snd (create_help_request db user hdata))
        \<and> completion_set_when_final (snd (close_help_request now db user cdata)))"
proof (intro conjI impI)
  assume ok: "save_request today db user data = (Inr r, db')"
  show "r \<in> set (repair_requests db')" by (rule save_request_stored[OF ok])
  show "\<exists>req. load_or_new (snd (resolve_equipment_and_issue db data)) user data
                   = Inr (req, rr_status r)"
    by (rule save_request_saved_completion(3)[OF ok])
  show "rr_status_id r = rs_id (rr_status r)" by (rule save_request_saved_completion(2)[OF ok])
  show "rr_completion_date r =
             Some (case ri_completion_date data of None \<Rightarrow> today | Some d \<Rightarrow> d)"
    if "rs_is_final (rr_status r)"
    using save_request_saved_completion(1)[OF ok] that by simp
  show "rr_completion_date r = ri_completion_date data" if "\<not> rs_is_final (rr_status r)"
    using save_request_saved_completion(1)[OF ok] that by simp
next
  assume "completion_set_when_final db"
  then show "completion_set_when_final (run db calls)"
    and "completion_set_when_final (snd (save_request today db user data))"
    and "completion_set_when_final (snd (delete_request db user k))"
    and "completion_set_when_final (snd (add_comment db user k msg))"
    and "completion_set_when_final (snd (create_help_request db user hdata))"
    and "completion_set_when_final (snd (close_help_request now db user cdata))"
    by (simp_all add: run_completion save_request_completion delete_request_completion
        add_comment_completion create_help_request_completion close_help_request_completion)
qed

theorem completion_date_rule_witness:
  "(\<exists>r db'.
      save_request 200 sample_db (sample_user 1 ROLE_MANAGER) sample_input = (Inr r, db')
      \<and> r \<in> set (repair_requests db')
      \<and> rs_is_final (rr_status r)
      \<and> ri_completion_date sample_input = None
      \<and> rr_completion_date r = Some 200)
   \<and> completion_set_when_final sample_db
   \<and> completion_set_when_final
        (run sample_db
           [SaveRequest 200 (sample_user 1 ROLE_MANAGER) sample_input,
            DeleteRequest (sample_user 1 ROLE_MANAGER) 10])"
proof -
  obtain r db' where ok:
    "save_request 200 sample_db (sample_user 1 ROLE_MANAGER) sample_input = (Inr r, db')"
    and fin: "rs_is_final (rr_status r)"
    unfolding sample_save_result by (simp add: status_done_def)
  have inv: "completion_set_when_final sample_db"
    by (simp add: completion_set_when_final_def sample_defs)
  have none: "ri_completion_date sample_input = None" by (simp add: sample_input_def)
  from completion_date_rule
    [where today = 200 and db = sample_db and user = "sample_user 1 ROLE_MANAGER"
      and data = sample_input and r = r and db' = db' and k = 10 and msg = "[]"
      and hdata = sample_open and now = 0 and cdata = sample_close
      and calls = "[SaveRequest 200 (sample_user 1 ROLE_MANAGER) sample_input,
            DeleteRequest (sample_user 1 ROLE_MANAGER) 10]"]
    ok fin inv none
  have "r \<in> set (repair_requests db') \<and> rr_completion_date r = Some 200
        \<and> completion_set_when_final
        (run sample_db
           [SaveRequest 200 (sample_user 1 ROLE_MANAGER) sample_input,
            DeleteRequest (sample_user 1 ROLE_MANAGER) 10])"
    by simp
  with ok fin inv none show ?thesis by blast
qed

section \<open>Master and Specialist are interchangeable\<close>

text \<open>
  Claim C8. Exchanging the role names Master and Specialist of the acting user changes
  no authorization predicate of \<^verbatim>\<open>rbac.py\<close>, no status transition decision, no field
  gate of \<^verbatim>\<open>save_request\<close>; \<^verbatim>\<open>is_master_role\<close> does not tell the two names apart. Each
  of the five use cases, called by a user whose role is exchanged or not (\<open>b\<close>), in a
  session where the roles of any set of stored users are exchanged (\<open>P\<close>), has the
  outcome (the same object returned, the same exception raised) of the call without any
  exchange, and leaves the session that call leaves, with those users' roles exchanged.
\<close>

theorem master_specialist_interchangeable:
  "is_master_role (swap_role_name n) = is_master_role n
   \<and> user_can_create_request (swap_role u) = user_can_create_request u
   \<and> user_can_view_request (swap_role u) req = user_can_view_request u req
   \<and> user_can_edit_request (swap_role u) req = user_can_edit_request u req
   \<and> user_can_delete_request (swap_role u) = user_can_delete_request u
   \<and> user_can_add_comment (swap_role u) req = user_can_add_comment u req
   \<and> user_can_assign_master (swap_role u) = user_can_assign_master u
   \<and> user_can_change_status (swap_role u) old new = user_can_change_status u old new
   \<and> user_can_manage_users (swap_role u) = user_can_manage_users u
   \<and> user_can_view_statistics (swap_role u) = user_can_view_statistics u
   \<and> user_can_view_quality_desk (swap_role u) = user_can_view_quality_desk u
   \<and> user_can_create_help_request (swap_role u) = user_can_create_help_request u
   \<and> user_can_handle_help_request (swap_role u) = user_can_handle_help_request u
   \<and> resolve_new_status_for_create db (swap_role u) data =
       resolve_new_status_for_create db u data
   \<and> resolve_new_status_for_update db (swap_role u) req data =
       resolve_new_status_for_update db u req data
   \<and> apply_due_date (swap_role u) req data = apply_due_date u req data
   \<and> apply_repair_parts (swap_role u) req data = apply_repair_parts u req data
   \<and> apply_master (swap_role u) req data = apply_master u req data
   \<and> apply_client (swap_role u) req data = apply_client u req data
   \<and> save_request today (swap_users P db) (if b then swap_role u else u) data =
       apsnd (swap_users P) (save_request today db u data)
   \<and> delete_request (swap_users P db) (if b then swap_role u else u) k =
       apsnd (swap_users P) (delete_request db u k)
   \<and> add_comment (swap_users P db) (if b then swap_role u else u) k msg =
       apsnd (swap_users P) (add_comment db u k msg)
   \<and> create_help_request (swap_users P db) (if b then swap_role u else u) hdata =
       apsnd (swap_users P) (create_help_request db u hdata)
   \<and> close_help_request now (swap_users P db) (if b then swap_role u else u) cdata =
       apsnd (swap_users P) (close_help_request now db u cdata)"
proof -
  have rbac: "user_can_create_request (swap_role u) = user_can_create_request u
   \<and> user_can_view_request (swap_role u) req = user_can_view_request u req
   \<and> user_can_edit_request (swap_role u) req = user_can_edit_request u req
   \<and> user_can_delete_request (swap_role u) = user_can_delete_request u
   \<and> user_can_add_comment (swap_role u) req = user_can_add_comment u req
   \<and> user_can_assign_master (swap_role u) = user_can_assign_master u
   \<and> user_can_change_status (swap_role u) old new = user_can_change_status u old new
   \<and> user_can_manage_users (swap_role u) = user_can_manage_users u
   \<and> user_can_view_statistics (swap_role u) = user_can_view_statistics u
   \<and> user_can_view_quality_desk (swap_role u) = user_can_view_quality_desk u
   \<and> user_can_create_help_request (swap_role u) = user_can_create_help_request u
   \<and> user_can_handle_help_request (swap_role u) = user_can_handle_help_request u"
    by (simp only: rbac_swap simp_thms)
  have gates: "resolve_new_status_for_create db (swap_role u) data =
       resolve_new_status_for_create db u data
   \<and> resolve_new_status_for_update db (swap_role u) req data =
       resolve_new_status_for_update db u req data
   \<and> apply_due_date (swap_role u) req data = apply_due_date u req data
   \<and> apply_repair_parts (swap_role u) req data = apply_repair_parts u req data
   \<and> apply_master (swap_role u) req data = apply_master u req data
   \<and> apply_client (swap_role u) req data = apply_client u req data"
    by (simp only: gates_swap simp_thms)
  have ops: "save_request today (swap_users P db) (if b then swap_role u else u) data =
       apsnd (swap_users P) (save_request today db u data)
   \<and> delete_request (swap_users P db) (if b then swap_role u else u) k =
       apsnd (swap_users P) (delete_request db u k)
   \<and> add_comment (swap_users P db) (if b then swap_role u else u) k msg =
       apsnd (swap_users P) (add_comment db u k msg)
   \<and> create_help_request (swap_users P db) (if b then swap_role u else u) hdata =
       apsnd (swap_users P) (create_help_request db u hdata)
   \<and> close_help_request now (swap_users P db) (if b then swap_role u else u) cdata =
       apsnd (swap_users P) (close_help_request now db u cdata)"
    by (cases b)
      (simp_all only: actor_swap swap_users_save_request swap_users_simple
        swap_users_close_help_request if_True if_False simp_thms)
  from rbac gates ops show ?thesis
    by (simp only: swap_role_name_simps simp_thms)
qed

theorem master_specialist_interchangeable_witness:
  "swap_role (sample_user 2 ROLE_MASTER) = sample_user 2 ROLE_SPECIALIST
   \<and> user_can_edit_request (sample_user 2 ROLE_SPECIALIST) sample_request
       = user_can_edit_request (sample_user 2 ROLE_MASTER) sample_request
   \<and> create_help_request sample_db (sample_user 2 ROLE_SPECIALIST) sample_open
       = create_help_request sample_db (sample_user 2 ROLE_MASTER) sample_open
   \<and> get_User (swap_users (\<lambda>u. u_id u = 3) sample_db_open) 3 = Some (sample_user 3 ROLE_MASTER)
   \<and> fst (close_help_request 500 (swap_users (\<lambda>u. u_id u = 3) sample_db_open)
             (sample_user 5 ROLE_QUALITY_MANAGER) sample_close)
       = fst (close_help_request 500 sample_db_open
               (sample_user 5 ROLE_QUALITY_MANAGER) sample_close)"
proof -
  have s: "swap_role (sample_user 2 ROLE_MASTER) = sample_user 2 ROLE_SPECIALIST"
    by (simp add: swap_role_def sample_user_def)
  have id: "apsnd (swap_users (\<lambda>u. False)) = (\<lambda>p :: (error + HelpRequest) \<times> Session. p)"
    by (simp add: fun_eq_iff swap_users_def)
  have id': "swap_users (\<lambda>u. False) sample_db = sample_db"
    by (simp add: swap_users_def)
  have g: "get_User (swap_users (\<lambda>u. u_id u = 3) sample_db_open) 3
             = Some (sample_user 3 ROLE_MASTER)"
    by (simp add: swap_users_get_User get_User_def sample_db1 sample_db_def swap_role_def
        sample_user_def)
  from master_specialist_interchangeable
    [where u = "sample_user 2 ROLE_MASTER" and req = sample_request and b = True
      and P = "\<lambda>u. False" and db = sample_db and hdata = sample_open
      and n = ROLE_MASTER and old = status_done and new = status_work and data = sample_input
      and today = 200 and k = 10 and msg = "[]" and now = 500 and cdata = sample_close]
  have 1: "user_can_edit_request (sample_user 2 ROLE_SPECIALIST) sample_request
       = user_can_edit_request (sample_user 2 ROLE_MASTER) sample_request
     \<and> create_help_request sample_db (sample_user 2 ROLE_SPECIALIST) sample_open
       = create_help_request sample_db (sample_user 2 ROLE_MASTER) sample_open"
    by (simp add: s id id')
  from master_specialist_interchangeable
    [where u = "sample_user 5 ROLE_QUALITY_MANAGER" and b = False
      and P = "\<lambda>u. u_id u = 3" and db = sample_db_open and cdata = sample_close and now = 500
      and n = ROLE_MASTER and old = status_done and new = status_work and data = sample_input
      and today = 200 and k = 10 and msg = "[]" and hdata = sample_open and req = sample_request]
  have 2: "fst (close_help_request 500 (swap_users (\<lambda>u. u_id u = 3) sample_db_open)
             (sample_user 5 ROLE_QUALITY_MANAGER) sample_close)
       = fst (close_help_request 500 sample_db_open
               (sample_user 5 ROLE_QUALITY_MANAGER) sample_close)"
    by simp
  from s g 1 2 show ?thesis by blast
qed

section \<open>The client field on save\<close>

text \<open>
  Claim C9, amended. When \<^verbatim>\<open>save_request\<close> returns from an update (\<^verbatim>\<open>data.id\<close> is
  given), the request existed, and its client is unchanged if the caller is a Master, a
  Specialist or a QualityManager, whatever client id was submitted; it is the caller,
  who was the client already, if the caller is a Client; it is the submitted client id if
  the caller is a Manager or an Operator; so the client differs from the one before
  only for a Client, a Manager or an Operator. On a create (\<^verbatim>\<open>data.id\<close> is
  \<^verbatim>\<open>None\<close>), a QualityManager gets \<^verbatim>\<open>BusinessRuleViolationError\<close>, and a Master or
  Specialist gets \<^verbatim>\<open>PermissionDeniedError\<close>: \<^verbatim>\<open>user_can_create_request\<close> refuses
  them before \<^verbatim>\<open>_apply_client\<close> is reached.
\<close>

theorem client_field_on_save:
  "(save_request today db user data = (Inr r, db') \<and> ri_id data = Some k \<longrightarrow>
      (\<exists>old. get_RepairRequest db k = Some old
         \<and> (is_master_role (role_name (Some user))
              \<or> role_name (Some user) = ROLE_QUALITY_MANAGER \<longrightarrow>
              rr_client_id r = rr_client_id old)
         \<and> (role_name (Some user) = ROLE_CLIENT \<longrightarrow>
              rr_client_id r = Some (u_id user) \<and> rr_client_id old = Some (u_id user))
         \<and> (role_name (Some user) \<in> {ROLE_MANAGER, ROLE_OPERATOR} \<longrightarrow>
              rr_client_id r = ri_client_id data)
         \<and> (rr_client_id r \<noteq> rr_client_id old \<longrightarrow>
              role_name (Some user) \<in> {ROLE_CLIENT, ROLE_MANAGER, ROLE_OPERATOR})))
   \<and> (ri_id data = None \<and> role_name (Some user) = ROLE_QUALITY_MANAGER \<longrightarrow>
        fst (save_request today db user data) = Inl BusinessRuleViolationError)
   \<and> (ri_id data = None \<and> is_master_role (role_name (Some user)) \<longrightarrow>
        fst (save_request today db user data) = Inl PermissionDeniedError)"
proof (intro conjI impI)
  assume a: "save_request today db user data = (Inr r, db') \<and> ri_id data = Some k"
  then have ok: "save_request today db user data = (Inr r, db')" and k: "ri_id data = Some k"
    by simp_all
  from save_request_update_client[OF ok k] obtain old where
    g: "get_RepairRequest db k = Some old" and e: "user_can_edit_request user old"
    and c: "rr_client_id r =
              (if role_name (Some user) = ROLE_CLIENT then Some (u_id user)
               else if role_name (Some user) \<in> {ROLE_MANAGER, ROLE_OPERATOR}
               then ri_client_id data
               else rr_client_id old)"
    by blast
  have own: "rr_client_id old = Some (u_id user)" if "role_name (Some user) = ROLE_CLIENT"
    using e that by (simp add: user_can_edit_request_def)
  have 1: "rr_client_id r = rr_client_id old"
    if "is_master_role (role_name (Some user)) \<or> role_name (Some user) = ROLE_QUALITY_MANAGER"
    using c that by (auto simp: is_master_role_def)
  have 2: "rr_client_id r = Some (u_id user) \<and> rr_client_id old = Some (u_id user)"
    if "role_name (Some user) = ROLE_CLIENT"
    using c own that by simp
  have 3: "rr_client_id r = ri_client_id data"
    if "role_name (Some user) \<in> {ROLE_MANAGER, ROLE_OPERATOR}"
    using c that by auto
  have 4: "role_name (Some user) \<in> {ROLE_CLIENT, ROLE_MANAGER, ROLE_OPERATOR}"
    if "rr_client_id r \<noteq> rr_client_id old"
    using c that by (auto split: if_splits)
  from g 1 2 3 4
  show "\<exists>old. get_RepairRequest db k = Some old
         \<and> (is_master_role (role_name (Some user))
              \<or> role_name (Some user) = ROLE_QUALITY_MANAGER \<longrightarrow>
              rr_client_id r = rr_client_id old)
         \<and> (role_name (Some user) = ROLE_CLIENT \<longrightarrow>
              rr_client_id r = Some (u_id user) \<and> rr_client_id old = Some (u_id user))
         \<and> (role_name (Some user) \<in> {ROLE_MANAGER, ROLE_OPERATOR} \<longrightarrow>
              rr_client_id r = ri_client_id data)
         \<and> (rr_client_id r \<noteq> rr_client_id old \<longrightarrow>
              role_name (Some user) \<in> {ROLE_CLIENT, ROLE_MANAGER, ROLE_OPERATOR})"
    by blast
next
  assume "ri_id data = None \<and> role_name (Some user) = ROLE_QUALITY_MANAGER"
  then show "fst (save_request today db user data) = Inl BusinessRuleViolationError"
    using save_request_create_quality_manager[of data user today db] by simp
next
  assume a: "ri_id data = None \<and> is_master_role (role_name (Some user))"
  then have "\<not> user_can_create_request user"
    by (auto simp: user_can_create_request_def is_master_role_def)
  with a show "fst (save_request today db user data) = Inl PermissionDeniedError"
    using save_request_create_denied[of data user today db] by simp
qed

theorem client_field_on_save_witness:
  "(\<exists>r db'.
      save_request 200 sample_db (sample_user 5 ROLE_QUALITY_MANAGER)
        (sample_input\<lparr>ri_id := Some 10, ri_status_id := Some 2, ri_client_id := Some 99\<rparr>)
        = (Inr r, db')
      \<and> rr_client_id r = Some 7)
   \<and> fst (save_request 200 sample_db (sample_user 5 ROLE_QUALITY_MANAGER) sample_input)
       = Inl BusinessRuleViolationError
   \<and> fst (save_request 200 sample_db (sample_user 3 ROLE_SPECIALIST) sample_input)
       = Inl PermissionDeniedError"
proof -
  let ?upd = "sample_input\<lparr>ri_id := Some 10, ri_status_id := Some 2, ri_client_id := Some 99\<rparr>"
  from sample_update_result obtain r db' where ok:
    "save_request 200 sample_db (sample_user 5 ROLE_QUALITY_MANAGER) ?upd = (Inr r, db')"
    by blast
  have g: "get_RepairRequest sample_db 10 = Some sample_request"
    "rr_client_id sample_request = Some 7" "ri_id ?upd = Some 10" "ri_id sample_input = None"
    by (simp_all add: get_RepairRequest_def sample_defs sample_input_def)
  from client_field_on_save
    [where today = 200 and db = sample_db and user = "sample_user 5 ROLE_QUALITY_MANAGER"
      and data = ?upd and r = r and db' = db' and k = 10, THEN conjunct1] ok g
  have 1: "rr_client_id r = Some 7" by auto
  from client_field_on_save
    [where today = 200 and db = sample_db and user = "sample_user 5 ROLE_QUALITY_MANAGER"
      and data = sample_input, THEN conjunct2, THEN conjunct1] g
  have 2: "fst (save_request 200 sample_db (sample_user 5 ROLE_QUALITY_MANAGER) sample_input)
       = Inl BusinessRuleViolationError" by simp
  from client_field_on_save
    [where today = 200 and db = sample_db and user = "sample_user 3 ROLE_SPECIALIST"
      and data = sample_input, THEN conjunct2, THEN conjunct2] g
  have 3: "fst (save_request 200 sample_db (sample_user 3 ROLE_SPECIALIST) sample_input)
       = Inl PermissionDeniedError" by simp
  from ok 1 2 3 show ?thesis by blast
qed

text \<open>
  The claim as it was stated fails for a Master: creating a request, with the equipment
  model and issue type of the form already stored, raises \<^verbatim>\<open>PermissionDeniedError\<close>
  and not \<^verbatim>\<open>BusinessRuleViolationError\<close>.
\<close>

theorem client_field_create_counterexample:
  "ri_id sample_input = None
   \<and> is_master_role (role_name (Some (sample_user 2 ROLE_MASTER)))
   \<and> save_request 200 sample_db (sample_user 2 ROLE_MASTER) sample_input
       = (Inl PermissionDeniedError, sample_db)
   \<and> fst (save_request 200 sample_db (sample_user 2 ROLE_MASTER) sample_input)
       \<noteq> Inl BusinessRuleViolationError"
  unfolding save_request_def sample_resolve
  by (simp add: load_or_new_def user_can_create_request_def sample_input_def)

section \<open>Opening a help request does not depend on the status\<close>

lemma get_RepairRequest_with_statuses:
  "get_RepairRequest (with_statuses f db) k =
     map_option (\<lambda>r. r\<lparr>rr_status_id := rs_id (f r), rr_status := f r\<rparr>) (get_RepairRequest db k)"
  unfolding get_RepairRequest_def with_statuses_def
  by (simp add: find_map_inv)

lemma with_statuses_help_requests [simp]:
  "help_requests (with_statuses f db) = help_requests db"
  "with_statuses f (db\<lparr>help_requests := hs\<rparr>) = (with_statuses f db)\<lparr>help_requests := hs\<rparr>"
  by (simp_all add: with_statuses_def)

lemma create_help_request_with_statuses:
  "create_help_request (with_statuses f db) user data =
     (fst (create_help_request db user data),
      with_statuses f (snd (create_help_request db user data)))"
  by (auto simp: create_help_request_def get_RepairRequest_with_statuses Let_def
      split: option.splits)

lemma create_help_request_blank:
  assumes "user_can_create_help_request user"
    and "get_RepairRequest db (hc_request_id data) = Some req"
    and "rr_master_id req = Some (u_id user)"
    and "open_help_requests db (hc_request_id data) = []"
    and "strip (hc_message data) = []"
  shows "create_help_request db user data = (Inl BusinessRuleViolationError, db)"
proof -
  from assms(4) have "find (\<lambda>h. hr_request_id h = hc_request_id data \<and> hr_status h = STATUS_OPEN)
                        (help_requests db) = None"
    by (simp add: open_help_requests_def find_None_iff' filter_empty_conv)
  with assms(1,2,3,5) show ?thesis
    by (simp add: create_help_request_def Let_def)
qed

text \<open>
  Claim C10, amended. \<^verbatim>\<open>create_help_request\<close> does not read the status of the repair
  request: giving the requests of the session other statuses changes neither its outcome
  nor what it stores. So a Master or Specialist who is the assigned master of an existing
  request whose status is final, and that has no open help request, opens one when the
  message is not blank, that is, when it has a character that is not whitespace; the
  stored message is the submitted one without a prefix and a suffix of whitespace. When
  the message is whitespace only, be it empty or not, the same call raises
  \<^verbatim>\<open>BusinessRuleViolationError\<close> and changes nothing.
\<close>

theorem create_help_request_ignores_status:
  "create_help_request (with_statuses f db) user data =
     (fst (create_help_request db user data),
      with_statuses f (snd (create_help_request db user data)))
   \<and> (is_master_role (role_name (Some user))
       \<and> get_RepairRequest db (hc_request_id data) = Some req
       \<and> rr_master_id req = Some (u_id user)
       \<and> rs_is_final (rr_status req)
       \<and> open_help_requests db (hc_request_id data) = []
       \<and> \<not> list_all isspace (hc_message data) \<longrightarrow>
       (\<exists>h. create_help_request db user data =
               (Inr h, db\<lparr>help_requests := help_requests db @ [h]\<rparr>)
            \<and> hr_request_id h = hc_request_id data
            \<and> hr_created_by_master_id h = u_id user
            \<and> hr_status h = STATUS_OPEN
            \<and> hr_message h \<noteq> []
            \<and> \<not> isspace (hd (hr_message h)) \<and> \<not> isspace (last (hr_message h))
            \<and> (\<exists>pre suf. hc_message data = pre @ hr_message h @ suf
                   \<and> list_all isspace pre \<and> list_all isspace suf)))
   \<and> (is_master_role (role_name (Some user))
       \<and> get_RepairRequest db (hc_request_id data) = Some req
       \<and> rr_master_id req = Some (u_id user)
       \<and> rs_is_final (rr_status req)
       \<and> open_help_requests db (hc_request_id data) = []
       \<and> list_all isspace (hc_message data) \<longrightarrow>
       create_help_request db user data = (Inl BusinessRuleViolationError, db))"
proof (intro conjI impI)
  show "create_help_request (with_statuses f db) user data =
     (fst (create_help_request db user data),
      with_statuses f (snd (create_help_request db user data)))"
    by (rule create_help_request_with_statuses)
next
  assume a: "is_master_role (role_name (Some user))
       \<and> get_RepairRequest db (hc_request_id data) = Some req
       \<and> rr_master_id req = Some (u_id user)
       \<and> rs_is_final (rr_status req)
       \<and> open_help_requests db (hc_request_id data) = []
       \<and> \<not> list_all isspace (hc_message data)"
  then have can: "user_can_create_help_request user"
    by (simp add: user_can_create_help_request_def)
  from a have ne: "strip (hc_message data) \<noteq> []" by (simp add: strip_Nil_iff)
  from create_help_request_succeeds[OF can, of db data req] a ne
  obtain h where h: "create_help_request db user data =
               (Inr h, db\<lparr>help_requests := help_requests db @ [h]\<rparr>)"
    "hr_request_id h = hc_request_id data" "hr_created_by_master_id h = u_id user"
    "hr_status h = STATUS_OPEN" "hr_message h = strip (hc_message data)"
    by blast
  from strip_ends[OF ne] strip_decomp[of "hc_message data"] ne h(5)
  have "hr_message h \<noteq> []
        \<and> \<not> isspace (hd (hr_message h)) \<and> \<not> isspace (last (hr_message h))
        \<and> (\<exists>pre suf. hc_message data = pre @ hr_message h @ suf
               \<and> list_all isspace pre \<and> list_all isspace suf)"
    by simp
  with h(1-4)
  show "\<exists>h. create_help_request db user data =
               (Inr h, db\<lparr>help_requests := help_requests db @ [h]\<rparr>)
            \<and> hr_request_id h = hc_request_id data
            \<and> hr_created_by_master_id h = u_id user
            \<and> hr_status h = STATUS_OPEN
            \<and> hr_message h \<noteq> []
            \<and> \<not> isspace (hd (hr_message h)) \<and> \<not> isspace (last (hr_message h))
            \<and> (\<exists>pre suf. hc_message data = pre @ hr_message h @ suf
                   \<and> list_all isspace pre \<and> list_all isspace suf)"
    by blast
next
  assume a: "is_master_role (role_name (Some user))
       \<and> get_RepairRequest db (hc_request_id data) = Some req
       \<and> rr_master_id req = Some (u_id user)
       \<and> rs_is_final (rr_status req)
       \<and> open_help_requests db (hc_request_id data) = []
       \<and> list_all isspace (hc_message data)"
  then have can: "user_can_create_help_request user"
    by (simp add: user_can_create_help_request_def)
  from a have "strip (hc_message data) = []" by (simp add: strip_Nil_iff)
  from create_help_request_blank[OF can _ _ _ this, of db req] a
  show "create_help_request db user data = (Inl BusinessRuleViolationError, db)" by blast
qed

theorem create_help_request_ignores_status_witness:
  "rs_is_final (rr_status sample_request_done)
   \<and> (\<exists>h. create_help_request (sample_db\<lparr>repair_requests := [sample_request_done]\<rparr>)
             (sample_user 2 ROLE_MASTER) sample_open =
             (Inr h, sample_db\<lparr>repair_requests := [sample_request_done], help_requests := [h]\<rparr>)
          \<and> hr_status h = STATUS_OPEN)
   \<and> create_help_request (sample_db\<lparr>repair_requests := [sample_request_done]\<rparr>)
        (sample_user 2 ROLE_MASTER) (sample_open\<lparr>hc_message := [32, 9]\<rparr>)
       = (Inl BusinessRuleViolationError, sample_db\<lparr>repair_requests := [sample_request_done]\<rparr>)"
proof -
  let ?db = "sample_db\<lparr>repair_requests := [sample_request_done]\<rparr>"
  let ?blank = "sample_open\<lparr>hc_message := [32, 9]\<rparr>"
  have hyps: "is_master_role (role_name (Some (sample_user 2 ROLE_MASTER)))
       \<and> get_RepairRequest ?db (hc_request_id sample_open) = Some sample_request_done
       \<and> rr_master_id sample_request_done = Some (u_id (sample_user 2 ROLE_MASTER))
       \<and> rs_is_final (rr_status sample_request_done)
       \<and> open_help_requests ?db (hc_request_id sample_open) = []
       \<and> \<not> list_all isspace (hc_message sample_open)"
    by (simp add: get_RepairRequest_def open_help_requests_def sample_defs
        sample_request_done_def isspace_def)
  have hypsb: "is_master_role (role_name (Some (sample_user 2 ROLE_MASTER)))
       \<and> get_RepairRequest ?db (hc_request_id ?blank) = Some sample_request_done
       \<and> rr_master_id sample_request_done = Some (u_id (sample_user 2 ROLE_MASTER))
       \<and> rs_is_final (rr_status sample_request_done)
       \<and> open_help_requests ?db (hc_request_id ?blank) = []
       \<and> list_all isspace (hc_message ?blank)"
    by (simp add: get_RepairRequest_def open_help_requests_def sample_defs
        sample_request_done_def isspace_def)
  from create_help_request_ignores_status
    [where db = ?db and user = "sample_user 2 ROLE_MASTER" and data = sample_open
      and req = sample_request_done and f = "\<lambda>r. status_done",
      THEN conjunct2, THEN conjunct1] hyps
  have 1: "\<exists>h. create_help_request ?db (sample_user 2 ROLE_MASTER) sample_open =
             (Inr h, ?db\<lparr>help_requests := help_requests ?db @ [h]\<rparr>)
          \<and> hr_status h = STATUS_OPEN"
    by blast
  from create_help_request_ignores_status
    [where db = ?db and user = "sample_user 2 ROLE_MASTER" and data = ?blank
      and req = sample_request_done and f = "\<lambda>r. status_done",
      THEN conjunct2, THEN conjunct2] hypsb
  have 2: "create_help_request ?db (sample_user 2 ROLE_MASTER) ?blank
             = (Inl BusinessRuleViolationError, ?db)"
    by blast
  from hyps 1 2 show ?thesis by (simp add: sample_db_def)
qed

text \<open>
  The claim as it was stated fails for a message that is not empty and is blank: for the
  assigned master of the stored request 10, whose status is final and which has no open
  help request, the message of one space raises \<^verbatim>\<open>BusinessRuleViolationError\<close>.
\<close>

theorem create_help_request_blank_counterexample:
  "is_master_role (role_name (Some (sample_user 2 ROLE_MASTER)))
   \<and> get_RepairRequest (sample_db\<lparr>repair_requests := [sample_request_done]\<rparr>)
        (hc_request_id (sample_open\<lparr>hc_message := [32]\<rparr>)) = Some sample_request_done
   \<and> rr_master_id sample_request_done = Some (u_id (sample_user 2 ROLE_MASTER))
   \<and> rs_is_final (rr_status sample_request_done)
   \<and> open_help_requests (sample_db\<lparr>repair_requests := [sample_request_done]\<rparr>)
        (hc_request_id (sample_open\<lparr>hc_message := [32]\<rparr>)) = []
   \<and> hc_message (sample_open\<lparr>hc_message := [32]\<rparr>) \<noteq> []
   \<and> create_help_request (sample_db\<lparr>repair_requests := [sample_request_done]\<rparr>)
        (sample_user 2 ROLE_MASTER) (sample_open\<lparr>hc_message := [32]\<rparr>)
       = (Inl BusinessRuleViolationError, sample_db\<lparr>repair_requests := [sample_request_done]\<rparr>)"
  by (simp add: create_help_request_def user_can_create_help_request_def
      get_RepairRequest_def open_help_requests_def strip_def lstrip_def rstrip_def
      isspace_def sample_defs sample_request_done_def Let_def)

end
